theory Spec2Isabelle
  imports Complex_Main "HOL-Library.Word" "HOL-Library.Sublist"
begin

section \<open>JavaScript strings\<close>

text \<open>
  A JavaScript string is a sequence of UTF-16 code units; \<open>length\<close>, \<open>includes\<close> and
  \<open>trim\<close> all work on code units. String literals of the source that are plain ASCII
  are written \<open>lit ''...''\<close>; the Vietnamese keywords of the scorer are spelled out as
  the code units the source file holds (all of them in the Basic Multilingual Plane,
  in composed form).
\<close>

type_synonym code_unit = "16 word"
type_synonym js_string = "code_unit list"

definition lit :: "string \<Rightarrow> js_string" where
  "lit s = map of_char s"

text \<open>\<open>String.prototype.includes\<close>: the search string occurs at some position; the
  empty search string always does.\<close>

fun includes_str :: "js_string \<Rightarrow> js_string \<Rightarrow> bool" where
  "includes_str [] sub = (sub = [])"
| "includes_str (c # cs) sub = (prefix sub (c # cs) \<or> includes_str cs sub)"

text \<open>\<open>String.prototype.trim\<close> strips the WhiteSpace and LineTerminator code points of
  ECMAScript from both ends: TAB, VT, FF, SP, NBSP, ZWNBSP, the Unicode space
  separators, and LF, CR, LS, PS.\<close>

definition isWhiteSpace :: "code_unit \<Rightarrow> bool" where
  "isWhiteSpace c \<longleftrightarrow>
     c \<in> set [0x0009, 0x000A, 0x000B, 0x000C, 0x000D, 0x0020, 0x00A0, 0x1680,
               0x2000, 0x2001, 0x2002, 0x2003, 0x2004, 0x2005, 0x2006, 0x2007,
               0x2008, 0x2009, 0x200A, 0x2028, 0x2029, 0x202F, 0x205F, 0x3000, 0xFEFF]"

definition trim :: "js_string \<Rightarrow> js_string" where
  "trim s = rev (dropWhile isWhiteSpace (rev (dropWhile isWhiteSpace s)))"

text \<open>
  The regular expression \<open>/^(ok|yes|no|done|test)$/i\<close> has no \<open>u\<close> and no \<open>m\<close> flag:
  \<open>^\<close> and \<open>$\<close> match only at the two ends of the input, and two code units match
  when their canonical forms (the single-unit upper case, never mapping a non-ASCII
  unit to an ASCII one) agree. Against the ASCII letters of the pattern this is
  equality up to the case of ASCII letters.
\<close>

definition asciiUpper :: "code_unit \<Rightarrow> code_unit" where
  "asciiUpper c = (if 0x61 \<le> c \<and> c \<le> 0x7A then c - 0x20 else c)"

definition matchesIgnoreCase :: "js_string \<Rightarrow> js_string \<Rightarrow> bool" where
  "matchesIgnoreCase s word \<longleftrightarrow> map asciiUpper s = map asciiUpper word"

definition junkWordRegex :: "js_string \<Rightarrow> bool" where
  "junkWordRegex s \<longleftrightarrow>
     matchesIgnoreCase s (lit ''ok'') \<or> matchesIgnoreCase s (lit ''yes'') \<or>
     matchesIgnoreCase s (lit ''no'') \<or> matchesIgnoreCase s (lit ''done'') \<or>
     matchesIgnoreCase s (lit ''test'')"

section \<open>Records of the data model\<close>

text \<open>\<open>AgentMemory\<close> and \<open>ScoredMemory\<close> of \<open>types/index.ts\<close>. The text is optional in
  the model because both scorers read it as \<open>memory.text ?? ''\<close>. Categories are the
  strings they are at run time: the scorer of the external service returns any string.
  Numbers of an embedding vector are finite rationals.\<close>

record agent_memory =
  mem_id :: js_string
  mem_text :: "js_string option"
  namespace :: js_string
  source_agent :: js_string
  source_type :: js_string
  userId :: js_string
  timestamp :: int
  vector :: "rat list option"

datatype scoring_method = Rule | Llm

record scored_memory = agent_memory +
  qualityScore :: int
  category :: js_string
  tags :: "js_string list"
  distilledText :: "js_string option"
  scoringMethod :: scoring_method
  llmReasoning :: "js_string option"

definition textOrEmpty :: "'a agent_memory_scheme \<Rightarrow> js_string" where
  "textOrEmpty memory = (case mem_text memory of None \<Rightarrow> [] | Some t \<Rightarrow> t)"

definition ALLOWED_CATEGORIES :: "js_string list" where
  "ALLOWED_CATEGORIES =
     [lit ''trading_win_pattern'', lit ''trading_loss_lesson'', lit ''market_insight'',
      lit ''bug_fix_pattern'', lit ''architecture_decision'', lit ''code_pattern'',
      lit ''process_improvement'', lit ''project_context'', lit ''system_rule'',
      lit ''noise'']"

section \<open>Pre-filter (\<open>scorer.service.ts\<close>)\<close>

text \<open>\<open>String.prototype.toLowerCase\<close> follows the Unicode case tables; it is a parameter
  of every function that calls it, and the theorems hold for any lower-casing.\<close>

definition preFilter :: "(js_string \<Rightarrow> js_string) \<Rightarrow> 'a agent_memory_scheme \<Rightarrow> bool" where
  "preFilter toLowerCase memory =
     (let text = trim (textOrEmpty memory);
          lower = toLowerCase text
      in if length text < 20 then False
         else if includes_str lower (lit ''subagent direct hook test'') then False
         else if includes_str lower (lit ''skipping:'') then False
         else if includes_str lower (lit ''no output'') then False
         else if junkWordRegex text then False
         else True)"


section \<open>Heuristic scorer (\<open>scorer.service.ts\<close>)\<close>

text \<open>The Vietnamese keywords, as code units: th\<open>U+1EAF\<close>ng, l\<open>U+1EE3\<close>i nhu\<open>U+1EAD\<close>n,
  m\<open>U+1EAB\<close>u, \<open>U+0111 U+00E3\<close> s\<open>U+1EED\<close>a, quy t\<open>U+1EAF\<close>c, lu\<open>U+1EAD\<close>t,
  b\<open>U+00E0\<close>i h\<open>U+1ECD\<close>c, kinh nghi\<open>U+1EC7\<close>m, th\<open>U+1ECB\<close> tr\<open>U+01B0 U+1EDD\<close>ng.\<close>

definition kw_thang :: js_string where
  "kw_thang = lit ''th'' @ [0x1EAF] @ lit ''ng''"

definition kw_loi_nhuan :: js_string where
  "kw_loi_nhuan = lit ''l'' @ [0x1EE3] @ lit ''i nhu'' @ [0x1EAD] @ lit ''n''"

definition kw_mau :: js_string where
  "kw_mau = lit ''m'' @ [0x1EAB] @ lit ''u''"

definition kw_da_sua :: js_string where
  "kw_da_sua = [0x0111, 0x00E3] @ lit '' s'' @ [0x1EED] @ lit ''a''"

definition kw_quy_tac :: js_string where
  "kw_quy_tac = lit ''quy t'' @ [0x1EAF] @ lit ''c''"

definition kw_luat :: js_string where
  "kw_luat = lit ''lu'' @ [0x1EAD] @ lit ''t''"

definition kw_bai_hoc :: js_string where
  "kw_bai_hoc = lit ''b'' @ [0x00E0] @ lit ''i h'' @ [0x1ECD] @ lit ''c''"

definition kw_kinh_nghiem :: js_string where
  "kw_kinh_nghiem = lit ''kinh nghi'' @ [0x1EC7] @ lit ''m''"

definition kw_thi_truong :: js_string where
  "kw_thi_truong = lit ''th'' @ [0x1ECB] @ lit '' tr'' @ [0x01B0, 0x1EDD] @ lit ''ng''"

text \<open>One positive keyword group: on a hit the score grows by the group's delta and
  the group's tag is pushed.\<close>

definition addSignal :: "bool \<Rightarrow> int \<Rightarrow> js_string \<Rightarrow> int \<times> js_string list \<Rightarrow> int \<times> js_string list" where
  "addSignal hit delta tag st = (if hit then (fst st + delta, snd st @ [tag]) else st)"

text \<open>The seven keyword groups, in the order of the source, from the baseline 50 and
  no tags.\<close>

definition keywordSignals :: "js_string \<Rightarrow> int \<times> js_string list" where
  "keywordSignals text =
     (let st = (50, []);
          st = addSignal (includes_str text (lit ''win'') \<or> includes_str text kw_thang \<or>
                          includes_str text kw_loi_nhuan) 15 (lit ''win'') st;
          st = addSignal (includes_str text (lit ''pattern'') \<or> includes_str text kw_mau)
                 10 (lit ''pattern'') st;
          st = addSignal (includes_str text (lit ''fix'') \<or> includes_str text (lit ''resolved'') \<or>
                          includes_str text kw_da_sua) 10 (lit ''fix'') st;
          st = addSignal (includes_str text (lit ''rule'') \<or> includes_str text kw_quy_tac \<or>
                          includes_str text kw_luat) 10 (lit ''rule'') st;
          st = addSignal (includes_str text (lit ''rsi'') \<or> includes_str text (lit ''macd'') \<or>
                          includes_str text (lit ''sma'')) 5 (lit ''technical'') st;
          st = addSignal (includes_str text (lit ''architecture'') \<or>
                          includes_str text (lit ''design'')) 10 (lit ''architecture'') st;
          st = addSignal (includes_str text (lit ''lesson'') \<or> includes_str text kw_bai_hoc \<or>
                          includes_str text kw_kinh_nghiem) 15 (lit ''lesson'') st
      in st)"

text \<open>The two length bonuses and the four penalties.\<close>

definition adjustScore :: "js_string \<Rightarrow> int \<Rightarrow> int" where
  "adjustScore text score0 =
     (let score = score0;
          score = (if length text > 200 then score + 5 else score);
          score = (if length text > 500 then score + 5 else score);
          score = (if includes_str text (lit ''error'') \<and> includes_str text (lit ''500'')
                   then score - 10 else score);
          score = (if length text < 30 then score - 20 else score);
          score = (if includes_str text (lit ''skipping'') \<or> includes_str text (lit ''no output'')
                   then score - 15 else score);
          score = (if includes_str text (lit ''test'') \<and> \<not> includes_str text (lit ''backtest'')
                   then score - 10 else score)
      in score)"

text \<open>The category by group and tags, starting from \<open>noise\<close>.\<close>

definition groupCategory :: "js_string \<Rightarrow> js_string \<Rightarrow> js_string list \<Rightarrow> int \<Rightarrow> js_string" where
  "groupCategory agent text tagList score =
     (if agent = lit ''trader'' then
        (if lit ''win'' \<in> set tagList then lit ''trading_win_pattern''
         else if includes_str text (lit ''thua'') \<or> includes_str text (lit ''loss'') \<or>
                 includes_str text (lit ''stop loss'') then lit ''trading_loss_lesson''
         else if lit ''technical'' \<in> set tagList \<or> includes_str text (lit ''market'') \<or>
                 includes_str text kw_thi_truong then lit ''market_insight''
         else if score > 50 then lit ''market_insight''
         else lit ''noise'')
      else if agent = lit ''fullstack'' then
        (if lit ''fix'' \<in> set tagList then lit ''bug_fix_pattern''
         else if lit ''architecture'' \<in> set tagList then lit ''architecture_decision''
         else if score > 50 then lit ''code_pattern''
         else lit ''noise'')
      else if agent = lit ''scrum'' then
        (if score > 50 then lit ''process_improvement'' else lit ''noise'')
      else if agent = lit ''assistant'' then
        (if lit ''rule'' \<in> set tagList then lit ''system_rule''
         else if score > 55 then lit ''project_context''
         else lit ''noise'')
      else lit ''noise'')"

text \<open>The two overrides that follow, in the order of the source: the rule tag, then
  the score below 30.\<close>

definition overrideCategory :: "js_string list \<Rightarrow> int \<Rightarrow> js_string \<Rightarrow> js_string" where
  "overrideCategory tagList score category0 =
     (let category = category0;
          category = (if lit ''rule'' \<in> set tagList then lit ''system_rule'' else category);
          category = (if score < 30 then lit ''noise'' else category)
      in category)"

definition scoreMemory :: "(js_string \<Rightarrow> js_string) \<Rightarrow> agent_memory \<Rightarrow> scored_memory" where
  "scoreMemory toLowerCase memory =
     (let text = toLowerCase (textOrEmpty memory);
          (score0, tags) = keywordSignals text;
          score = adjustScore text score0;
          category = overrideCategory tags score
                       (groupCategory (source_agent memory) text tags score)
      in agent_memory.extend memory
           (scored_memory.fields (min 100 (max 0 score)) category tags None Rule None))"


section \<open>Batch LLM scorer (\<open>llm-scorer.service.ts\<close>)\<close>

text \<open>A JavaScript number is a finite value (every finite double is a rational) or one
  of \<open>NaN\<close>, \<open>Infinity\<close>, \<open>-Infinity\<close>.\<close>

datatype js_number = Finite rat | NaN | PosInfinity | NegInfinity

definition isFinite :: "js_number \<Rightarrow> bool" where
  "isFinite n = (case n of Finite x \<Rightarrow> True | _ \<Rightarrow> False)"

text \<open>\<open>Math.round\<close> returns the nearest integer, the upper one at a tie.\<close>

definition mathRound :: "rat \<Rightarrow> int" where
  "mathRound x = \<lfloor>x + 1 / 2\<rfloor>"

definition clampScore :: "js_number \<Rightarrow> int" where
  "clampScore score =
     (case score of Finite x \<Rightarrow> min 100 (max 0 (mathRound x)) | _ \<Rightarrow> 50)"

text \<open>What \<open>JSON.parse\<close> can return. An object keeps its members in source order; a
  later member overrides an earlier one of the same name.\<close>

datatype json =
    JNull
  | JBool bool
  | JNumber js_number
  | JString js_string
  | JArray "json list"
  | JObject "(js_string \<times> json) list"

datatype js_error = TransportError | SyntaxError | NotArrayError | TypeError | StoreError

definition bindE :: "js_error + 'a \<Rightarrow> ('a \<Rightarrow> js_error + 'b) \<Rightarrow> js_error + 'b" where
  "bindE r f = (case r of Inl e \<Rightarrow> Inl e | Inr v \<Rightarrow> f v)"

fun mapE :: "('a \<Rightarrow> js_error + 'b) \<Rightarrow> 'a list \<Rightarrow> js_error + 'b list" where
  "mapE f [] = Inr []"
| "mapE f (x # xs) = bindE (f x) (\<lambda>y. bindE (mapE f xs) (\<lambda>ys. Inr (y # ys)))"

text \<open>Reading one of the properties \<open>index\<close>, \<open>score\<close>, \<open>category\<close>, \<open>reasoning\<close> of
  an array element: \<open>null\<close> has no properties and the read throws; booleans, numbers,
  strings and arrays have none of these four, and the read gives \<open>undefined\<close> (here
  \<open>None\<close>), as it does on an object without the member.\<close>

fun getProp :: "json \<Rightarrow> js_string \<Rightarrow> js_error + json option" where
  "getProp JNull key = Inl TypeError"
| "getProp (JObject members) key = Inr (map_of (rev members) key)"
| "getProp other key = Inr None"

text \<open>\<open>Number(v)\<close> and \<open>String(v)\<close>. The cases of \<open>undefined\<close>, \<open>null\<close>, booleans,
  numbers and (for \<open>String\<close>) strings are those of ECMAScript; parsing a string as a
  number, printing a number and converting arrays and objects (which may throw) are
  parameters.\<close>

definition jsNumber :: "(json \<Rightarrow> js_error + js_number) \<Rightarrow> json option \<Rightarrow> js_error + js_number" where
  "jsNumber convert v =
     (case v of
        None \<Rightarrow> Inr NaN
      | Some JNull \<Rightarrow> Inr (Finite 0)
      | Some (JBool b) \<Rightarrow> Inr (Finite (if b then 1 else 0))
      | Some (JNumber n) \<Rightarrow> Inr n
      | Some other \<Rightarrow> convert other)"

definition jsString :: "(json \<Rightarrow> js_error + js_string) \<Rightarrow> json \<Rightarrow> js_error + js_string" where
  "jsString convert v =
     (case v of
        JString s \<Rightarrow> Inr s
      | JNull \<Rightarrow> Inr (lit ''null'')
      | JBool b \<Rightarrow> Inr (if b then lit ''true'' else lit ''false'')
      | other \<Rightarrow> convert other)"

text \<open>\<open>v ?? d\<close> for a string literal \<open>d\<close>.\<close>

definition orDefault :: "json option \<Rightarrow> js_string \<Rightarrow> json" where
  "orDefault v d = (case v of None \<Rightarrow> JString d | Some JNull \<Rightarrow> JString d | Some w \<Rightarrow> w)"

record llm_entry =
  llm_index :: js_number
  llm_score :: js_number
  llm_category :: js_string
  llm_reasoning :: js_string

text \<open>The callback of \<open>parsed.map\<close> in \<open>parseScores\<close>.\<close>

definition convertItem ::
  "(json \<Rightarrow> js_error + js_number) \<Rightarrow> (json \<Rightarrow> js_error + js_string) \<Rightarrow> json \<Rightarrow>
   js_error + llm_entry" where
  "convertItem toNum toStr item =
     bindE (getProp item (lit ''index'')) (\<lambda>vi. bindE (jsNumber toNum vi) (\<lambda>i.
     bindE (getProp item (lit ''score'')) (\<lambda>vs. bindE (jsNumber toNum vs) (\<lambda>s.
     bindE (getProp item (lit ''category'')) (\<lambda>vc.
       bindE (jsString toStr (orDefault vc (lit ''noise''))) (\<lambda>c.
     bindE (getProp item (lit ''reasoning'')) (\<lambda>vr.
       bindE (jsString toStr (orDefault vr (lit ''LLM scoring''))) (\<lambda>r.
     Inr \<lparr>llm_index = i, llm_score = s, llm_category = c, llm_reasoning = r\<rparr>))))))))"

text \<open>\<open>parseScores\<close>, from the outcome of \<open>JSON.parse\<close> on the cleaned response text
  (\<open>None\<close>: it threw a SyntaxError). Stripping a code fence and the surrounding white
  space happens before and is not modelled.\<close>

definition parseScores ::
  "(json \<Rightarrow> js_error + js_number) \<Rightarrow> (json \<Rightarrow> js_error + js_string) \<Rightarrow> json option \<Rightarrow>
   js_error + llm_entry list" where
  "parseScores toNum toStr parsed =
     (case parsed of
        None \<Rightarrow> Inl SyntaxError
      | Some (JArray items) \<Rightarrow>
          bindE (mapE (convertItem toNum toStr) items)
            (\<lambda>entries. Inr (filter (\<lambda>item. isFinite (llm_index item) \<and> isFinite (llm_score item))
                               entries))
      | Some other \<Rightarrow> Inl NotArrayError)"

text \<open>What one request to the external service gives: the call throws (the fetch
  fails, the status is not OK, the body is not the expected JSON, or there is no
  content), or there is response text, given here by what \<open>JSON.parse\<close> makes of it.\<close>

datatype llm_reply = CallThrows | ResponseText "json option"

definition withFallbackTag :: "(js_string \<Rightarrow> js_string) \<Rightarrow> agent_memory \<Rightarrow> scored_memory" where
  "withFallbackTag toLowerCase memory =
     (let fallback = scoreMemory toLowerCase memory
      in fallback\<lparr>tags := tags fallback @ [lit ''llm-fallback'']\<rparr>)"

text \<open>The callback of \<open>batch.map\<close> in the \<open>try\<close> block of \<open>scoreSingleBatch\<close>.\<close>

definition scoreWithEntries ::
  "(js_string \<Rightarrow> js_string) \<Rightarrow> llm_entry list \<Rightarrow> nat \<Rightarrow> agent_memory \<Rightarrow> scored_memory" where
  "scoreWithEntries toLowerCase scores idx memory =
     (case find (\<lambda>s. llm_index s = Finite (of_nat idx)) scores of
        None \<Rightarrow> withFallbackTag toLowerCase memory
      | Some llmScore \<Rightarrow>
          (let cat = (if llm_category llmScore \<in> set ALLOWED_CATEGORIES
                      then llm_category llmScore else lit ''noise'')
           in agent_memory.extend memory
                (scored_memory.fields (clampScore (llm_score llmScore)) cat
                   [cat, lit ''llm-scored''] (Some (llm_reasoning llmScore)) Llm
                   (Some (llm_reasoning llmScore)))))"

definition tryScoreBatch ::
  "(json \<Rightarrow> js_error + js_number) \<Rightarrow> (json \<Rightarrow> js_error + js_string) \<Rightarrow>
   (js_string \<Rightarrow> js_string) \<Rightarrow> llm_reply \<Rightarrow> agent_memory list \<Rightarrow>
   js_error + scored_memory list" where
  "tryScoreBatch toNum toStr toLowerCase reply batch =
     bindE (case reply of
              CallThrows \<Rightarrow> Inl TransportError
            | ResponseText parsed \<Rightarrow> parseScores toNum toStr parsed)
       (\<lambda>scores. Inr (map (\<lambda>(idx, memory). scoreWithEntries toLowerCase scores idx memory)
                        (enumerate 0 batch)))"

text \<open>\<open>scoreSingleBatch\<close>: the \<open>try\<close> block, and the \<open>catch\<close> that scores the whole
  batch with the heuristic scorer.\<close>

definition scoreSingleBatch ::
  "(json \<Rightarrow> js_error + js_number) \<Rightarrow> (json \<Rightarrow> js_error + js_string) \<Rightarrow>
   (js_string \<Rightarrow> js_string) \<Rightarrow> llm_reply \<Rightarrow> agent_memory list \<Rightarrow> scored_memory list" where
  "scoreSingleBatch toNum toStr toLowerCase reply batch =
     (case tryScoreBatch toNum toStr toLowerCase reply batch of
        Inr results \<Rightarrow> results
      | Inl error \<Rightarrow> map (withFallbackTag toLowerCase) batch)"

text \<open>\<open>Array.prototype.slice\<close> with integer arguments: a negative bound counts from
  the end, and both bounds are clipped to the array.\<close>

definition slice_list :: "int \<Rightarrow> int \<Rightarrow> 'a list \<Rightarrow> 'a list" where
  "slice_list start fin xs =
     (let len = int (length xs);
          k = (if start < 0 then max (len + start) 0 else min start len);
          final = (if fin < 0 then max (len + fin) 0 else min fin len)
      in take (nat (final - k)) (drop (nat k) xs))"

text \<open>The loop of \<open>scoreBatch\<close> over the chunks, for an integer batch size, which the
  constructor has replaced by \<open>Math.max(1, batchSize)\<close>. The external service is a
  function from the offset of a chunk to what the request for that chunk gives.\<close>

function scoreBatchLoop ::
  "(json \<Rightarrow> js_error + js_number) \<Rightarrow> (json \<Rightarrow> js_error + js_string) \<Rightarrow>
   (js_string \<Rightarrow> js_string) \<Rightarrow> (nat \<Rightarrow> llm_reply) \<Rightarrow> int \<Rightarrow> agent_memory list \<Rightarrow>
   nat \<Rightarrow> scored_memory list \<Rightarrow> scored_memory list" where
  "scoreBatchLoop toNum toStr toLowerCase llm batchSize memories i results =
     (if i < length memories then
        scoreBatchLoop toNum toStr toLowerCase llm batchSize memories
          (i + nat (max 1 batchSize))
          (results @ scoreSingleBatch toNum toStr toLowerCase (llm i)
                       (slice_list (int i) (int i + max 1 batchSize) memories))
      else results)"
  by pat_completeness auto
termination
  by (relation "measure (\<lambda>(toNum, toStr, toLowerCase, llm, batchSize, memories, i, results).
                  length memories - i)") auto

declare scoreBatchLoop.simps [simp del]

text \<open>\<open>scoreBatch\<close>. The batch size is what \<open>Number.parseInt\<close> gave: an integer, or
  \<open>NaN\<close> (here \<open>None\<close>) for text that is no numeral. \<open>Math.max(1, NaN)\<close> is \<open>NaN\<close>:
  when there is a record at all, the first chunk is \<open>memories.slice(0, NaN)\<close>, which
  is \<open>memories.slice(0, 0)\<close>, and after it the counter is \<open>NaN\<close> and the test
  \<open>i < memories.length\<close> fails.\<close>

definition scoreBatch ::
  "(json \<Rightarrow> js_error + js_number) \<Rightarrow> (json \<Rightarrow> js_error + js_string) \<Rightarrow>
   (js_string \<Rightarrow> js_string) \<Rightarrow> (nat \<Rightarrow> llm_reply) \<Rightarrow> int option \<Rightarrow> agent_memory list \<Rightarrow>
   scored_memory list" where
  "scoreBatch toNum toStr toLowerCase llm batchSize memories =
     (case batchSize of
        Some n \<Rightarrow> scoreBatchLoop toNum toStr toLowerCase llm n memories 0 []
      | None \<Rightarrow>
          (if 0 < length memories
           then scoreSingleBatch toNum toStr toLowerCase (llm 0) (slice_list 0 0 memories)
           else []))"

section \<open>Writing the golden collection (\<open>qdrant.service.ts\<close>)\<close>

text \<open>A point of an upsert request. The payload of the source copies every field of
  the memory but \<open>id\<close> and \<open>vector\<close>; it is the memory itself here.\<close>

record golden_point =
  point_id :: js_string
  point_vector :: "rat list"
  payload :: scored_memory

definition toPoint :: "scored_memory \<Rightarrow> golden_point" where
  "toPoint memory =
     \<lparr>point_id = mem_id memory,
      point_vector = (case vector memory of None \<Rightarrow> replicate 1024 0 | Some v \<Rightarrow> v),
      payload = memory\<rparr>"

text \<open>The loop of \<open>upsertGoldenMemories\<close>; \<open>written\<close> collects the point lists of the
  \<open>client.upsert\<close> calls, in order.\<close>

function upsertChunks :: "golden_point list \<Rightarrow> nat \<Rightarrow> golden_point list list \<Rightarrow> golden_point list list" where
  "upsertChunks points i written =
     (if i < length points then
        upsertChunks points (i + 128)
          (written @ [slice_list (int i) (int i + 128) points])
      else written)"
  by pat_completeness auto
termination
  by (relation "measure (\<lambda>(points, i, written). length points - i)") auto

declare upsertChunks.simps [simp del]

definition upsertGoldenMemories :: "scored_memory list \<Rightarrow> golden_point list list" where
  "upsertGoldenMemories memories =
     (if length memories = 0 then []
      else upsertChunks (map toPoint memories) 0 [])"

section \<open>Selection (\<open>distiller.service.ts\<close>)\<close>

record distill_config =
  agents :: "js_string list"
  minQualityScore :: int
  maxOutputPerAgent :: int
  categories :: "js_string list"
  dryRun :: bool
  createSnapshot :: bool
  forceRuleOnly :: bool

text \<open>What \<open>distill\<close> reads from the environment: whether \<open>LLM_SCORING_ENABLED\<close> is the
  string \<open>true\<close>, and the batch size parsed from \<open>LLM_BATCH_SIZE\<close> (\<open>None\<close> when
  \<open>Number.parseInt\<close> gives \<open>NaN\<close>). And its collaborators, each of which may fail:
  the store's \<open>getAllMemories\<close>, \<open>createGoldenCollection\<close>, the \<open>client.upsert\<close> of one
  request and the \<open>createSnapshot\<close> of the golden collection (which gives the path of
  the snapshot); the external scoring service, by the position of the group in the
  run and the offset of the chunk; and the conversions of the runtime.\<close>

record environment =
  llmScoringEnabled :: bool
  llmBatchSize :: "int option"
  getAllMemories :: "js_string \<Rightarrow> js_error + agent_memory list"
  createGoldenCollection :: "js_error + unit"
  clientUpsert :: "golden_point list \<Rightarrow> js_error + unit"
  snapshotGolden :: "js_error + js_string"
  llmService :: "nat \<Rightarrow> nat \<Rightarrow> llm_reply"
  runtimeLowerCase :: "js_string \<Rightarrow> js_string"
  runtimeNumber :: "json \<Rightarrow> js_error + js_number"
  runtimeString :: "json \<Rightarrow> js_error + js_string"

text \<open>The chain of lines 47 to 52: the three filters, the sort by descending score
  (\<open>Array.prototype.sort\<close> is stable) and the cut.\<close>

definition selectTop :: "distill_config \<Rightarrow> scored_memory list \<Rightarrow> scored_memory list" where
  "selectTop config scored =
     slice_list 0 (maxOutputPerAgent config)
       (sort_key (\<lambda>memory. - qualityScore memory)
          (filter (\<lambda>memory. category memory \<in> set (categories config))
             (filter (\<lambda>memory. category memory \<noteq> lit ''noise'')
                (filter (\<lambda>memory. qualityScore memory \<ge> minQualityScore config) scored))))"

definition scoreFiltered :: "environment \<Rightarrow> distill_config \<Rightarrow> nat \<Rightarrow> agent_memory list \<Rightarrow> scored_memory list" where
  "scoreFiltered env config pos filtered =
     (if llmScoringEnabled env \<and> \<not> forceRuleOnly config
      then scoreBatch (runtimeNumber env) (runtimeString env) (runtimeLowerCase env)
             (llmService env pos) (llmBatchSize env) filtered
      else map (scoreMemory (runtimeLowerCase env)) filtered)"

text \<open>What the loop of \<open>distill\<close> builds: the counts of the report (its time stamp and
  the previews of the top memories are left out) and \<open>selectedByAgent\<close>, an object
  keyed by group.\<close>

record distill_state =
  totalProcessed :: nat
  totalKept :: nat
  byAgent :: "(js_string \<times> nat \<times> nat) list"
  selectedByAgent :: "(js_string \<times> scored_memory list) list"

text \<open>Assigning a property of an object: an existing key keeps its place, a new key
  comes last. Assigning to \<open>__proto__\<close> sets the prototype and creates no property.\<close>

fun putProp :: "'k \<Rightarrow> 'v \<Rightarrow> ('k \<times> 'v) list \<Rightarrow> ('k \<times> 'v) list" where
  "putProp k v [] = [(k, v)]"
| "putProp k v (p # ps) = (if fst p = k then (k, v) # ps else p # putProp k v ps)"

definition setProp :: "js_string \<Rightarrow> 'v \<Rightarrow> (js_string \<times> 'v) list \<Rightarrow> (js_string \<times> 'v) list" where
  "setProp k v obj = (if k = lit ''__proto__'' then obj else putProp k v obj)"

text \<open>\<open>Object.values\<close> lists the properties whose keys are array indices (canonical
  decimal numerals below \<open>2^32 - 1\<close>) first, in ascending order, then the others in
  order of creation.\<close>

definition digitsValue :: "js_string \<Rightarrow> nat" where
  "digitsValue k = foldl (\<lambda>n c. 10 * n + unat (c - 0x30)) 0 k"

definition isArrayIndex :: "js_string \<Rightarrow> bool" where
  "isArrayIndex k \<longleftrightarrow>
     k \<noteq> [] \<and> filter (\<lambda>c. \<not> (0x30 \<le> c \<and> c \<le> 0x39)) k = [] \<and>
     (length k = 1 \<or> hd k \<noteq> 0x30) \<and> digitsValue k < 2 ^ 32 - 1"

definition objectValues :: "(js_string \<times> 'v) list \<Rightarrow> 'v list" where
  "objectValues obj =
     map snd (sort_key (\<lambda>p. digitsValue (fst p)) (filter (\<lambda>p. isArrayIndex (fst p)) obj) @
              filter (\<lambda>p. \<not> isArrayIndex (fst p)) obj)"

text \<open>The loop over \<open>config.agents\<close>; a failing read of the store ends the run.\<close>

fun distillAgents ::
  "environment \<Rightarrow> distill_config \<Rightarrow> nat \<Rightarrow> js_string list \<Rightarrow> distill_state \<Rightarrow>
   js_error + distill_state" where
  "distillAgents env config pos [] st = Inr st"
| "distillAgents env config pos (agent # rest) st =
     (case getAllMemories env agent of
        Inl e \<Rightarrow> Inl e
      | Inr memories \<Rightarrow>
          (let filtered = filter (preFilter (runtimeLowerCase env)) memories;
               scored = scoreFiltered env config pos filtered;
               top = selectTop config scored
           in distillAgents env config (Suc pos) rest
                \<lparr>totalProcessed = totalProcessed st + length filtered,
                 totalKept = totalKept st + length top,
                 byAgent = setProp agent (length filtered, length top) (byAgent st),
                 selectedByAgent = setProp agent top (selectedByAgent st)\<rparr>))"

record distill_result =
  reportProcessed :: nat
  reportKept :: nat
  reportDiscarded :: int
  reportByAgent :: "(js_string \<times> nat \<times> nat) list"
  flatMemories :: "scored_memory list"
  upserts :: "golden_point list list"
  snapshotCreated :: "js_string option"

text \<open>\<open>distill\<close>: the loop, the retained set \<open>flatMemories\<close>, and unless the run is a
  dry run the writes: the golden collection is created, the requests of
  \<open>upsertGoldenMemories\<close> are sent one after the other, and the snapshot is taken when
  the configuration asks for one. The first failure ends the run without a report.
  \<open>upserts\<close> holds the requests that were sent.\<close>

definition distill :: "environment \<Rightarrow> distill_config \<Rightarrow> js_error + distill_result" where
  "distill env config =
     bindE (distillAgents env config 0 (agents config)
              \<lparr>totalProcessed = 0, totalKept = 0, byAgent = [], selectedByAgent = []\<rparr>)
       (\<lambda>st. let flat = concat (objectValues (selectedByAgent st));
                  report = \<lparr>reportProcessed = totalProcessed st,
                            reportKept = totalKept st,
                            reportDiscarded = int (totalProcessed st) - int (totalKept st),
                            reportByAgent = byAgent st,
                            flatMemories = flat,
                            upserts = [],
                            snapshotCreated = None\<rparr>
              in if dryRun config then Inr report
                 else
                   bindE (createGoldenCollection env) (\<lambda>created.
                   bindE (mapE (clientUpsert env) (upsertGoldenMemories flat)) (\<lambda>sent.
                   if createSnapshot config
                   then bindE (snapshotGolden env) (\<lambda>path.
                          Inr (report\<lparr>upserts := upsertGoldenMemories flat,
                                      snapshotCreated := Some path\<rparr>))
                   else Inr (report\<lparr>upserts := upsertGoldenMemories flat\<rparr>))))"

section \<open>Predicates of the specification\<close>

text \<open>The three failures of a chunk that the specification names: the call throws,
  the response is malformed JSON, or its top level is not an array.\<close>

definition replyFails :: "llm_reply \<Rightarrow> bool" where
  "replyFails reply =
     (case reply of
        CallThrows \<Rightarrow> True
      | ResponseText None \<Rightarrow> True
      | ResponseText (Some (JArray items)) \<Rightarrow> False
      | ResponseText (Some other) \<Rightarrow> True)"

text \<open>The invariant of a scored record: a score within 0 and 100 and a category of
  the closed set.\<close>

definition wellScored :: "scored_memory \<Rightarrow> bool" where
  "wellScored r \<longleftrightarrow>
     0 \<le> qualityScore r \<and> qualityScore r \<le> 100 \<and> category r \<in> set ALLOWED_CATEGORIES"

text \<open>The pre-filter in the words of the specification: the trimmed text is shorter
  than 20, or contains a junk substring whatever the case of its letters, or is one
  of the junk words whatever the case of its letters.\<close>

definition junkSubstrings :: "js_string list" where
  "junkSubstrings = [lit ''subagent direct hook test'', lit ''skipping:'', lit ''no output'']"

definition junkWords :: "js_string list" where
  "junkWords = [lit ''ok'', lit ''yes'', lit ''no'', lit ''done'', lit ''test'']"

definition preFilterRejects :: "(js_string \<Rightarrow> js_string) \<Rightarrow> agent_memory \<Rightarrow> bool" where
  "preFilterRejects toLowerCase memory \<longleftrightarrow>
     length (trim (textOrEmpty memory)) < 20 \<or>
     list_ex (includes_str (toLowerCase (trim (textOrEmpty memory)))) junkSubstrings \<or>
     list_ex (matchesIgnoreCase (trim (textOrEmpty memory))) junkWords"

text \<open>The rule keyword group of the heuristic scorer.\<close>

definition matchesRuleKeywords :: "js_string \<Rightarrow> bool" where
  "matchesRuleKeywords t \<longleftrightarrow>
     includes_str t (lit ''rule'') \<or> includes_str t kw_quy_tac \<or> includes_str t kw_luat"

text \<open>What a run retained, record by record: identifier, group, score and category;
  \<open>None\<close> for a run that failed.\<close>

definition retainedSummary ::
  "js_error + distill_result \<Rightarrow> (js_string \<times> js_string \<times> int \<times> js_string) list option" where
  "retainedSummary run =
     (case run of
        Inl e \<Rightarrow> None
      | Inr result \<Rightarrow>
          Some (map (\<lambda>r. (mem_id r, source_agent r, qualityScore r, category r))
                  (flatMemories result)))"

section \<open>Concrete inputs\<close>

text \<open>On text made of ASCII characters, \<open>toLowerCase\<close> changes exactly the letters
  \<open>A\<close> to \<open>Z\<close>.\<close>

definition asciiLower :: "js_string \<Rightarrow> js_string" where
  "asciiLower s = map (\<lambda>c. if 0x41 \<le> c \<and> c \<le> 0x5A then c + 0x20 else c) s"

definition memoryOf :: "string \<Rightarrow> string \<Rightarrow> js_string \<Rightarrow> agent_memory" where
  "memoryOf ident agent body =
     \<lparr>mem_id = lit ident, mem_text = Some body, namespace = lit ''default'',
      source_agent = lit agent, source_type = lit ''auto'', userId = lit ''u1'',
      timestamp = 1700000000000, vector = None\<rparr>"

text \<open>Records for the heuristic scorer: "Win" followed by 247 letters \<open>a\<close>; a short text
  with a rule keyword and "skipping"; a record of a group the scorer does not know.\<close>

definition winExample :: agent_memory where
  "winExample = memoryOf ''m3'' ''trader'' (lit ''Win'' @ replicate 247 0x61)"

definition noiseExample :: agent_memory where
  "noiseExample = memoryOf ''t2'' ''trader'' (lit ''rule: skipping the check'')"

definition internExample :: agent_memory where
  "internExample = memoryOf ''i1'' ''intern'' (lit ''Documented the deployment checklist for releases'')"

text \<open>Texts for the pre-filter: 19 letters, the word "test" in mixed case, a text
  with the junk substring "skipping:", and a text that passes.\<close>

definition shortExample :: agent_memory where
  "shortExample = memoryOf ''p1'' ''trader'' (replicate 19 0x61)"

definition testExample :: agent_memory where
  "testExample = memoryOf ''p2'' ''trader'' (lit ''TeSt'')"

definition junkExample :: agent_memory where
  "junkExample = memoryOf ''p3'' ''scrum'' (lit ''  Skipping: nothing changed since the last run  '')"

definition keptExample :: agent_memory where
  "keptExample = memoryOf ''p4'' ''scrum'' (lit ''Skipping the retro was a mistake we regret'')"

text \<open>Conversions for the examples, which convert no string, array or object; a
  chunk of two records, a response for it, and the entries the response parses to.\<close>

definition exampleToNumber :: "json \<Rightarrow> js_error + js_number" where
  "exampleToNumber v = Inr NaN"

definition exampleToString :: "json \<Rightarrow> js_error + js_string" where
  "exampleToString v = Inr (lit ''[object Object]'')"

definition exampleBatch :: "agent_memory list" where
  "exampleBatch =
     [memoryOf ''a1'' ''fullstack'' (lit ''Fixed the payment module retry bug''),
      memoryOf ''a2'' ''scrum'' (lit ''Sprint planning moved to Monday mornings'')]"

definition exampleParsed :: json where
  "exampleParsed =
     JArray
       [JObject [(lit ''index'', JNumber (Finite 0)), (lit ''score'', JNumber (Finite (171 / 2))),
                 (lit ''category'', JString (lit ''code_pattern'')),
                 (lit ''reasoning'', JString (lit ''Reusable structure''))],
        JObject [(lit ''index'', JNumber (Finite 1)), (lit ''score'', JNumber (Finite 250)),
                 (lit ''category'', JString (lit ''brilliant''))]]"




text \<open>The defaults of \<open>utils/config.ts\<close>, and scored records given directly.\<close>

definition DEFAULT_AGENTS :: "js_string list" where
  "DEFAULT_AGENTS = [lit ''trader'', lit ''fullstack'', lit ''assistant'', lit ''scrum'']"

definition DEFAULT_CATEGORIES :: "js_string list" where
  "DEFAULT_CATEGORIES =
     [lit ''trading_win_pattern'', lit ''trading_loss_lesson'', lit ''market_insight'',
      lit ''bug_fix_pattern'', lit ''architecture_decision'', lit ''code_pattern'',
      lit ''process_improvement'', lit ''project_context'', lit ''system_rule'']"

definition defaultConfig :: distill_config where
  "defaultConfig =
     \<lparr>agents = DEFAULT_AGENTS, minQualityScore = 60, maxOutputPerAgent = 100,
      categories = DEFAULT_CATEGORIES, dryRun = False, createSnapshot = False,
      forceRuleOnly = False\<rparr>"

definition scoredOf :: "string \<Rightarrow> int \<Rightarrow> string \<Rightarrow> scored_memory" where
  "scoredOf ident q cat =
     agent_memory.extend (memoryOf ident ''trader'' (lit ''A note about the market''))
       (scored_memory.fields q (lit cat) [] None Rule None)"

definition exampleScored :: "scored_memory list" where
  "exampleScored =
     [scoredOf ''s1'' 60 ''market_insight'', scoredOf ''s2'' 80 ''trading_win_pattern'',
      scoredOf ''s3'' 70 ''market_insight'', scoredOf ''s4'' 90 ''noise'']"

text \<open>A store of five records, read by group as the filter of \<open>getAllMemories\<close> does
  (no filter for the empty group); a rule-based environment; an environment with
  LLM scoring, whose service answers every chunk with one entry for its first record;
  and one whose service always fails.\<close>

definition exampleMemories :: "agent_memory list" where
  "exampleMemories =
     [memoryOf ''t1'' ''trader'' (lit ''Win: breakout pattern on BTC worked after RSI reset''),
      memoryOf ''t2'' ''trader'' (lit ''rule: skipping the check''),
      memoryOf ''t3'' ''trader'' (lit ''ok''),
      memoryOf ''f1'' ''fullstack'' (lit ''Fixed the payment module retry bug''),
      memoryOf ''i1'' ''intern'' (lit ''Documented the deployment checklist for releases'')]"

definition exampleStore :: "js_string \<Rightarrow> js_error + agent_memory list" where
  "exampleStore agent =
     Inr (if agent = [] then exampleMemories
          else filter (\<lambda>memory. source_agent memory = agent) exampleMemories)"

definition ruleEnvironment :: environment where
  "ruleEnvironment =
     \<lparr>llmScoringEnabled = False, llmBatchSize = Some 10, getAllMemories = exampleStore,
      createGoldenCollection = Inr (), clientUpsert = (\<lambda>request. Inr ()),
      snapshotGolden = Inr (lit ''snapshots/golden.snapshot''),
      llmService = (\<lambda>pos offset. CallThrows), runtimeLowerCase = asciiLower,
      runtimeNumber = exampleToNumber, runtimeString = exampleToString\<rparr>"

definition llmEnvironment :: environment where
  "llmEnvironment =
     \<lparr>llmScoringEnabled = True, llmBatchSize = Some 10, getAllMemories = exampleStore,
      createGoldenCollection = Inr (), clientUpsert = (\<lambda>request. Inr ()),
      snapshotGolden = Inr (lit ''snapshots/golden.snapshot''),
      llmService = (\<lambda>pos offset. ResponseText (Some (JArray
         [JObject [(lit ''index'', JNumber (Finite 0)), (lit ''score'', JNumber (Finite 90)),
                   (lit ''category'', JString (lit ''process_improvement'')),
                   (lit ''reasoning'', JString (lit ''Reusable checklist''))]]))),
      runtimeLowerCase = asciiLower,
      runtimeNumber = exampleToNumber, runtimeString = exampleToString\<rparr>"

definition failingLlmEnvironment :: environment where
  "failingLlmEnvironment = llmEnvironment\<lparr>llmService := (\<lambda>pos offset. CallThrows)\<rparr>"

section \<open>Properties of the heuristic scorer\<close>

lemma scoreMemory_qualityScore:
  "qualityScore (scoreMemory lc m) =
     min 100 (max 0 (adjustScore (lc (textOrEmpty m)) (fst (keywordSignals (lc (textOrEmpty m))))))"
  by (simp add: scoreMemory_def Let_def split_def agent_memory.defs scored_memory.defs)

lemma scoreMemory_tags:
  "tags (scoreMemory lc m) = snd (keywordSignals (lc (textOrEmpty m)))"
  by (simp add: scoreMemory_def Let_def split_def agent_memory.defs scored_memory.defs)

lemma scoreMemory_category:
  "category (scoreMemory lc m) =
     overrideCategory (snd (keywordSignals (lc (textOrEmpty m))))
       (adjustScore (lc (textOrEmpty m)) (fst (keywordSignals (lc (textOrEmpty m)))))
       (groupCategory (source_agent m) (lc (textOrEmpty m))
          (snd (keywordSignals (lc (textOrEmpty m))))
          (adjustScore (lc (textOrEmpty m)) (fst (keywordSignals (lc (textOrEmpty m))))))"
  by (simp add: scoreMemory_def Let_def split_def agent_memory.defs scored_memory.defs)

lemma scoreMemory_scoringMethod: "scoringMethod (scoreMemory lc m) = Rule"
  by (simp add: scoreMemory_def Let_def split_def agent_memory.defs scored_memory.defs)

lemma scoreMemory_source_agent: "source_agent (scoreMemory lc m) = source_agent m"
  by (simp add: scoreMemory_def Let_def split_def agent_memory.defs scored_memory.defs)

text \<open>
  C1, as stated, fails: a text of 24 characters that mentions a rule and "skipping"
  collects the \<open>rule\<close> tag and scores 50 + 10 - 20 - 15 = 25, and the override for a
  score below 30 runs after the rule override, so the category is \<open>noise\<close>.
\<close>

theorem C1_rule_tag_counterexample:
  "lit ''rule'' \<in> set (tags (scoreMemory asciiLower
       (memoryOf ''m1'' ''trader'' (lit ''rule: skipping the check'')))) \<and>
   qualityScore (scoreMemory asciiLower
       (memoryOf ''m1'' ''trader'' (lit ''rule: skipping the check''))) = 25 \<and>
   category (scoreMemory asciiLower
       (memoryOf ''m1'' ''trader'' (lit ''rule: skipping the check''))) \<noteq> lit ''system_rule''"
  by code_simp

text \<open>
  C1 (amended): for every record and every group, when the collected tags include
  \<open>rule\<close> and the final score is at least 30, the category is \<open>system_rule\<close>.
\<close>

theorem C1_rule_tag_override:
  assumes "lit ''rule'' \<in> set (tags (scoreMemory lc m))"
    and "30 \<le> qualityScore (scoreMemory lc m)"
  shows "category (scoreMemory lc m) = lit ''system_rule''"
proof -
  let ?t = "lc (textOrEmpty m)"
  let ?s = "adjustScore ?t (fst (keywordSignals ?t))"
  from assms(2) have "\<not> ?s < 30"
    by (simp add: scoreMemory_qualityScore)
  moreover from assms(1) have "lit ''rule'' \<in> set (snd (keywordSignals ?t))"
    by (simp add: scoreMemory_tags)
  ultimately show ?thesis
    by (simp add: scoreMemory_category overrideCategory_def)
qed

theorem C1_rule_tag_override_witness:
  "category (scoreMemory asciiLower
      (memoryOf ''m2'' ''fullstack'' (lit ''Rule: never deploy on a Friday evening''))) =
   lit ''system_rule''"
  by (rule C1_rule_tag_override) code_simp+

lemma allowed_names:
  "lit ''trading_win_pattern'' \<in> set ALLOWED_CATEGORIES"
  "lit ''trading_loss_lesson'' \<in> set ALLOWED_CATEGORIES"
  "lit ''market_insight'' \<in> set ALLOWED_CATEGORIES"
  "lit ''bug_fix_pattern'' \<in> set ALLOWED_CATEGORIES"
  "lit ''architecture_decision'' \<in> set ALLOWED_CATEGORIES"
  "lit ''code_pattern'' \<in> set ALLOWED_CATEGORIES"
  "lit ''process_improvement'' \<in> set ALLOWED_CATEGORIES"
  "lit ''project_context'' \<in> set ALLOWED_CATEGORIES"
  "lit ''system_rule'' \<in> set ALLOWED_CATEGORIES"
  "lit ''noise'' \<in> set ALLOWED_CATEGORIES"
  by (simp_all add: ALLOWED_CATEGORIES_def)

lemma groupCategory_allowed: "groupCategory agent text tagList score \<in> set ALLOWED_CATEGORIES"
  by (simp add: groupCategory_def allowed_names)

lemma overrideCategory_allowed:
  "c \<in> set ALLOWED_CATEGORIES \<Longrightarrow> overrideCategory tagList score c \<in> set ALLOWED_CATEGORIES"
  by (simp add: overrideCategory_def allowed_names)

lemma scoreMemory_category_allowed: "category (scoreMemory lc m) \<in> set ALLOWED_CATEGORIES"
  by (simp add: scoreMemory_category overrideCategory_allowed groupCategory_allowed)

lemma scoreMemory_range: "0 \<le> qualityScore (scoreMemory lc m) \<and> qualityScore (scoreMemory lc m) \<le> 100"
  by (simp add: scoreMemory_qualityScore)

lemma scoreMemory_noise_floor:
  assumes "qualityScore (scoreMemory lc m) < 30"
  shows "category (scoreMemory lc m) = lit ''noise''"
proof -
  from assms have "adjustScore (lc (textOrEmpty m)) (fst (keywordSignals (lc (textOrEmpty m)))) < 30"
    by (simp add: scoreMemory_qualityScore)
  then show ?thesis
    by (simp add: scoreMemory_category overrideCategory_def)
qed

lemma addSignal_tags:
  "t \<in> set (snd (addSignal hit d tag st)) \<longleftrightarrow> (hit \<and> t = tag) \<or> t \<in> set (snd st)"
  by (auto simp: addSignal_def)

lemma tag_names_distinct:
  "distinct [lit ''win'', lit ''pattern'', lit ''fix'', lit ''rule'', lit ''technical'',
             lit ''architecture'', lit ''lesson'']"
  by (simp add: lit_def)

lemma rule_tag_iff:
  "lit ''rule'' \<in> set (snd (keywordSignals t)) \<longleftrightarrow>
     includes_str t (lit ''rule'') \<or> includes_str t kw_quy_tac \<or> includes_str t kw_luat"
  using tag_names_distinct
  by (simp add: keywordSignals_def addSignal_tags Let_def del: distinct.simps) auto

lemma unknown_group_noise:
  assumes "source_agent m \<noteq> lit ''trader''" "source_agent m \<noteq> lit ''fullstack''"
   "source_agent m \<noteq> lit ''scrum''" "source_agent m \<noteq> lit ''assistant''"
   "\<not> (includes_str (lc (textOrEmpty m)) (lit ''rule'') \<or> includes_str (lc (textOrEmpty m)) kw_quy_tac \<or>
      includes_str (lc (textOrEmpty m)) kw_luat)"
  shows "category (scoreMemory lc m) = lit ''noise''"
  using assms by (simp add: scoreMemory_category overrideCategory_def groupCategory_def rule_tag_iff)

text \<open>
  C8: a record of group \<open>trader\<close> whose (lower-cased) text contains "win", has length
  250, and matches no other keyword group and no penalty, gets the quality score
  70 = 50 + 15 + 5, the category \<open>trading_win_pattern\<close> and the tag \<open>win\<close>.
\<close>

theorem C8_trader_win_scenario:
  assumes agent: "source_agent m = lit ''trader''"
    and win: "includes_str (lc (textOrEmpty m)) (lit ''win'')"
    and len: "length (lc (textOrEmpty m)) = 250"
    and others: "\<not> includes_str (lc (textOrEmpty m)) (lit ''pattern'')"
      "\<not> includes_str (lc (textOrEmpty m)) kw_mau"
      "\<not> includes_str (lc (textOrEmpty m)) (lit ''fix'')"
      "\<not> includes_str (lc (textOrEmpty m)) (lit ''resolved'')"
      "\<not> includes_str (lc (textOrEmpty m)) kw_da_sua"
      "\<not> includes_str (lc (textOrEmpty m)) (lit ''rule'')"
      "\<not> includes_str (lc (textOrEmpty m)) kw_quy_tac"
      "\<not> includes_str (lc (textOrEmpty m)) kw_luat"
      "\<not> includes_str (lc (textOrEmpty m)) (lit ''rsi'')"
      "\<not> includes_str (lc (textOrEmpty m)) (lit ''macd'')"
      "\<not> includes_str (lc (textOrEmpty m)) (lit ''sma'')"
      "\<not> includes_str (lc (textOrEmpty m)) (lit ''architecture'')"
      "\<not> includes_str (lc (textOrEmpty m)) (lit ''design'')"
      "\<not> includes_str (lc (textOrEmpty m)) (lit ''lesson'')"
      "\<not> includes_str (lc (textOrEmpty m)) kw_bai_hoc"
      "\<not> includes_str (lc (textOrEmpty m)) kw_kinh_nghiem"
    and penalties: "\<not> (includes_str (lc (textOrEmpty m)) (lit ''error'') \<and>
          includes_str (lc (textOrEmpty m)) (lit ''500''))"
      "\<not> includes_str (lc (textOrEmpty m)) (lit ''skipping'')"
      "\<not> includes_str (lc (textOrEmpty m)) (lit ''no output'')"
      "\<not> (includes_str (lc (textOrEmpty m)) (lit ''test'') \<and>
          \<not> includes_str (lc (textOrEmpty m)) (lit ''backtest''))"
  shows "qualityScore (scoreMemory lc m) = 70 \<and>
         category (scoreMemory lc m) = lit ''trading_win_pattern'' \<and>
         lit ''win'' \<in> set (tags (scoreMemory lc m))"
proof -
  let ?t = "lc (textOrEmpty m)"
  have sig: "keywordSignals ?t = (65, [lit ''win''])"
    using win others by (simp add: keywordSignals_def addSignal_def Let_def)
  have adj: "adjustScore ?t 65 = 70"
    using len penalties by (simp add: adjustScore_def Let_def)
  have nr: "lit ''rule'' \<noteq> lit ''win''" by (simp add: lit_def)
  show ?thesis
    using agent nr by (simp add: scoreMemory_qualityScore scoreMemory_category scoreMemory_tags
        sig adj overrideCategory_def groupCategory_def)
qed

lemma includes_str_subset: "includes_str s sub \<Longrightarrow> set sub \<subseteq> set s"
proof (induction s)
  case Nil
  then show ?case by simp
next
  case (Cons c cs)
  then show ?case
    using set_mono_prefix [of sub "c # cs"] by auto
qed

theorem C8_trader_win_scenario_witness:
  "qualityScore (scoreMemory asciiLower winExample) = 70 \<and>
   category (scoreMemory asciiLower winExample) = lit ''trading_win_pattern'' \<and>
   lit ''win'' \<in> set (tags (scoreMemory asciiLower winExample))"
proof -
  have low: "asciiLower (textOrEmpty winExample) = lit ''win'' @ replicate 247 0x61"
    by (simp add: winExample_def asciiLower_def memoryOf_def textOrEmpty_def lit_def)
  have chars: "set (asciiLower (textOrEmpty winExample)) = {0x77, 0x69, 0x6E, 0x61}"
    unfolding low by (auto simp: lit_def)
  have no: "\<not> includes_str (asciiLower (textOrEmpty winExample)) sub"
    if "\<not> set sub \<subseteq> {0x77, 0x69, 0x6E, 0x61}" for sub
    using that includes_str_subset [of "asciiLower (textOrEmpty winExample)" sub]
    unfolding chars by blast
  have agent: "source_agent winExample = lit ''trader''"
    by (simp add: winExample_def memoryOf_def)
  have win: "includes_str (asciiLower (textOrEmpty winExample)) (lit ''win'')"
    unfolding low by (simp add: lit_def)
  have len: "length (asciiLower (textOrEmpty winExample)) = 250"
    unfolding low by (simp add: lit_def)
  show ?thesis
    by (rule C8_trader_win_scenario [where lc = asciiLower and m = winExample, OF agent win len])
       (simp_all add: no lit_def kw_mau_def kw_da_sua_def kw_quy_tac_def kw_luat_def
          kw_bai_hoc_def kw_kinh_nghiem_def)
qed

section \<open>Properties of the batch LLM scorer\<close>

lemma tryScoreBatch_fails:
  "replyFails reply \<Longrightarrow> \<exists>e. tryScoreBatch toNum toStr lc reply batch = Inl e"
  by (auto simp: replyFails_def tryScoreBatch_def parseScores_def bindE_def
      split: llm_reply.splits option.splits json.splits)

lemma scoreSingleBatch_fails:
  "replyFails reply \<Longrightarrow>
     scoreSingleBatch toNum toStr lc reply batch = map (withFallbackTag lc) batch"
  using tryScoreBatch_fails [of reply toNum toStr lc batch]
  by (auto simp: scoreSingleBatch_def)



lemma withFallbackTag_fields:
  "qualityScore (withFallbackTag lc m) = qualityScore (scoreMemory lc m)"
  "category (withFallbackTag lc m) = category (scoreMemory lc m)"
  "scoringMethod (withFallbackTag lc m) = Rule"
  "tags (withFallbackTag lc m) = tags (scoreMemory lc m) @ [lit ''llm-fallback'']"
  by (simp_all add: withFallbackTag_def Let_def scoreMemory_scoringMethod)

lemma clampScore_range: "0 \<le> clampScore n \<and> clampScore n \<le> 100"
  by (simp add: clampScore_def split: js_number.splits)

lemma scoreWithEntries_matched:
  assumes "find (\<lambda>s. llm_index s = Finite (of_nat idx)) scores = Some e"
  shows "qualityScore (scoreWithEntries lc scores idx m) = clampScore (llm_score e)"
    and "category (scoreWithEntries lc scores idx m) =
           (if llm_category e \<in> set ALLOWED_CATEGORIES then llm_category e else lit ''noise'')"
    and "tags (scoreWithEntries lc scores idx m) =
           [category (scoreWithEntries lc scores idx m), lit ''llm-scored'']"
    and "scoringMethod (scoreWithEntries lc scores idx m) = Llm"
  using assms
  by (simp_all add: scoreWithEntries_def Let_def agent_memory.defs scored_memory.defs)

lemma wellScored_scoreMemory: "wellScored (scoreMemory lc m)"
  by (simp add: wellScored_def scoreMemory_range scoreMemory_category_allowed)

lemma wellScored_withFallbackTag: "wellScored (withFallbackTag lc m)"
  using wellScored_scoreMemory [of lc m] by (simp add: wellScored_def withFallbackTag_fields)

lemma wellScored_scoreWithEntries: "wellScored (scoreWithEntries lc scores idx m)"
proof (cases "find (\<lambda>s. llm_index s = Finite (of_nat idx)) scores")
  case None
  then show ?thesis
    by (simp add: scoreWithEntries_def wellScored_withFallbackTag)
next
  case (Some e)
  then show ?thesis
    by (simp add: wellScored_def scoreWithEntries_matched [OF Some] clampScore_range allowed_names)
qed

lemma wellScored_scoreSingleBatch:
  "list_all wellScored (scoreSingleBatch toNum toStr lc reply batch)"
proof (cases "tryScoreBatch toNum toStr lc reply batch")
  case (Inl e)
  then show ?thesis
    by (simp add: scoreSingleBatch_def list_all_iff wellScored_withFallbackTag)
next
  case (Inr rs)
  then obtain scores where
    "rs = map (\<lambda>(idx, memory). scoreWithEntries lc scores idx memory) (enumerate 0 batch)"
    by (auto simp: tryScoreBatch_def bindE_def split: sum.splits)
  with Inr show ?thesis
    by (auto simp: scoreSingleBatch_def list_all_iff wellScored_scoreWithEntries)
qed

lemma slice_list_chunk:
  assumes "i < length xs" "1 \<le> b"
  shows "slice_list (int i) (int i + b) xs = take (nat b) (drop i xs)"
proof -
  have "take (nat (min (int i + b) (int (length xs)) - int i)) (drop i xs) = take (nat b) (drop i xs)"
  proof (cases "int i + b \<le> int (length xs)")
    case True
    then show ?thesis by (simp add: min_def)
  next
    case False
    then have "length (drop i xs) \<le> nat b" "length (drop i xs) \<le> nat (int (length xs) - int i)"
      by auto
    with False show ?thesis by (simp add: min_def)
  qed
  with assms show ?thesis
    by (simp add: slice_list_def Let_def min_def)
qed

lemma wellScored_scoreBatchLoop:
  "list_all wellScored results \<Longrightarrow>
     list_all wellScored (scoreBatchLoop toNum toStr lc llm batchSize memories i results)"
proof (induction toNum toStr lc llm batchSize memories i results rule: scoreBatchLoop.induct)
  case (1 toNum toStr toLowerCase llm batchSize memories i results)
  show ?case
  proof (cases "i < length memories")
    case True
    have "list_all wellScored (results @ scoreSingleBatch toNum toStr toLowerCase (llm i)
                       (slice_list (int i) (int i + max 1 batchSize) memories))"
      using "1.prems" by (simp add: wellScored_scoreSingleBatch)
    from "1.IH" [OF True this] True show ?thesis
      by (subst scoreBatchLoop.simps) simp
  next
    case False
    with "1.prems" show ?thesis by (subst scoreBatchLoop.simps) simp
  qed
qed

lemma scoreBatchLoop_all_fail:
  assumes "\<And>k. replyFails (llm k)"
  shows "scoreBatchLoop toNum toStr lc llm batchSize memories i results =
           results @ map (withFallbackTag lc) (drop i memories)"
  using assms
proof (induction toNum toStr lc llm batchSize memories i results rule: scoreBatchLoop.induct)
  case (1 toNum toStr toLowerCase llm batchSize memories i results)
  show ?case
  proof (cases "i < length memories")
    case True
    have chunk: "slice_list (int i) (int i + max 1 batchSize) memories =
                   take (nat (max 1 batchSize)) (drop i memories)"
      using True by (simp add: slice_list_chunk)
    have split: "take (nat (max 1 batchSize)) (drop i memories) @
                   drop (i + nat (max 1 batchSize)) memories = drop i memories"
      by (metis add.commute append_take_drop_id drop_drop)
    have "scoreBatchLoop toNum toStr toLowerCase llm batchSize memories i results =
            scoreBatchLoop toNum toStr toLowerCase llm batchSize memories
              (i + nat (max 1 batchSize))
              (results @ scoreSingleBatch toNum toStr toLowerCase (llm i)
                 (slice_list (int i) (int i + max 1 batchSize) memories))"
      using True by (subst scoreBatchLoop.simps) simp
    also have "\<dots> = (results @ scoreSingleBatch toNum toStr toLowerCase (llm i)
                 (slice_list (int i) (int i + max 1 batchSize) memories)) @
               map (withFallbackTag toLowerCase) (drop (i + nat (max 1 batchSize)) memories)"
      using "1.IH" [OF True "1.prems"] .
    also have "\<dots> = results @ map (withFallbackTag toLowerCase) (drop i memories)"
      using split
      by (simp add: scoreSingleBatch_fails [OF "1.prems"] chunk flip: map_append)
    finally show ?thesis .
  next
    case False
    then show ?thesis by (subst scoreBatchLoop.simps) simp
  qed
qed

lemma scoreBatch_all_fail:
  "(\<And>k. replyFails (llm k)) \<Longrightarrow>
     scoreBatch toNum toStr lc llm (Some n) memories = map (withFallbackTag lc) memories"
  by (simp add: scoreBatch_def scoreBatchLoop_all_fail)

lemma length_scoreSingleBatch:
  "length (scoreSingleBatch toNum toStr lc reply batch) = length batch"
proof (cases "tryScoreBatch toNum toStr lc reply batch")
  case (Inl e)
  then show ?thesis by (simp add: scoreSingleBatch_def)
next
  case (Inr rs)
  then have "length rs = length batch"
    by (auto simp: tryScoreBatch_def bindE_def split: sum.splits)
  with Inr show ?thesis by (simp add: scoreSingleBatch_def)
qed

lemma length_scoreBatchLoop:
  "i \<le> length memories \<Longrightarrow>
     length (scoreBatchLoop toNum toStr lc llm batchSize memories i results) =
       length results + (length memories - i)"
proof (induction toNum toStr lc llm batchSize memories i results rule: scoreBatchLoop.induct)
  case (1 toNum toStr toLowerCase llm batchSize memories i results)
  show ?case
  proof (cases "i < length memories")
    case True
    let ?b = "nat (max 1 batchSize)"
    have chunk: "slice_list (int i) (int i + max 1 batchSize) memories =
                   take ?b (drop i memories)"
      using True by (simp add: slice_list_chunk)
    show ?thesis
    proof (cases "i + ?b \<le> length memories")
      case le: True
      from "1.IH" [OF True le] True le show ?thesis
        by (subst scoreBatchLoop.simps) (simp add: length_scoreSingleBatch chunk)
    next
      case gt: False
      then have stop: "\<not> i + ?b < length memories" by simp
      have "scoreBatchLoop toNum toStr toLowerCase llm batchSize memories i results =
              results @ scoreSingleBatch toNum toStr toLowerCase (llm i)
                (slice_list (int i) (int i + max 1 batchSize) memories)"
        using True stop
        by (subst scoreBatchLoop.simps, simp, subst scoreBatchLoop.simps, simp)
      moreover have "length (slice_list (int i) (int i + max 1 batchSize) memories) =
                       length memories - i"
        unfolding chunk using gt by simp
      ultimately show ?thesis
        using True by (simp add: length_scoreSingleBatch)
    qed
  next
    case False
    with "1.prems" show ?thesis by (subst scoreBatchLoop.simps) simp
  qed
qed

lemma length_scoreBatch:
  "length (scoreBatch toNum toStr lc llm (Some n) memories) = length memories"
  by (simp add: scoreBatch_def length_scoreBatchLoop)

lemma scoreBatch_NaN: "scoreBatch toNum toStr lc llm None memories = []"
proof -
  have "length (scoreSingleBatch toNum toStr lc (llm 0) (slice_list 0 0 memories)) = 0"
    by (simp add: length_scoreSingleBatch slice_list_def)
  then show ?thesis
    by (simp add: scoreBatch_def)
qed






lemma example_invalid_category:
  "qualityScore (scoreSingleBatch exampleToNumber exampleToString asciiLower
      (ResponseText (Some exampleParsed)) exampleBatch ! 1) = 100 \<and>
   category (scoreSingleBatch exampleToNumber exampleToString asciiLower
      (ResponseText (Some exampleParsed)) exampleBatch ! 1) = lit ''noise''"
  by code_simp

text \<open>
  C5: every scored record that the heuristic scorer returns, and every scored record
  that the batch LLM scorer returns for a chunk or for a whole run, through a matched
  entry or through the fallback, has a quality score from 0 to 100 and a category of
  the closed set of ten.
\<close>

theorem C5_score_and_category_invariant:
  "wellScored (scoreMemory lc m) \<and>
   (\<forall>r \<in> set (scoreSingleBatch toNum toStr lc reply batch). wellScored r) \<and>
   (\<forall>r \<in> set (scoreBatch toNum toStr lc llm batchSize memories). wellScored r) \<and>
   length ALLOWED_CATEGORIES = 10"
proof -
  have "list_all wellScored (scoreBatch toNum toStr lc llm batchSize memories)"
  proof (cases batchSize)
    case None
    then show ?thesis by (simp add: scoreBatch_NaN)
  next
    case (Some n)
    have "list_all wellScored (scoreBatchLoop toNum toStr lc llm n memories 0 [])"
      by (rule wellScored_scoreBatchLoop) simp
    with Some show ?thesis by (simp add: scoreBatch_def)
  qed
  then show ?thesis
    using wellScored_scoreSingleBatch [of toNum toStr lc reply batch]
    by (simp add: wellScored_scoreMemory list_all_iff ALLOWED_CATEGORIES_def)
qed

theorem C5_score_and_category_invariant_witness:
  "wellScored (scoreMemory asciiLower (exampleBatch ! 0)) \<and>
   list_all wellScored (scoreSingleBatch exampleToNumber exampleToString asciiLower
      (ResponseText (Some exampleParsed)) exampleBatch) \<and>
   list_all wellScored (scoreBatch exampleToNumber exampleToString asciiLower
      (\<lambda>k. if k = 0 then ResponseText (Some exampleParsed) else CallThrows) (Some 1) exampleBatch) \<and>
   length (scoreSingleBatch exampleToNumber exampleToString asciiLower
      (ResponseText (Some exampleParsed)) exampleBatch) = 2"
  using C5_score_and_category_invariant [of asciiLower "exampleBatch ! 0" exampleToNumber
      exampleToString "ResponseText (Some exampleParsed)" exampleBatch
      "\<lambda>k. if k = 0 then ResponseText (Some exampleParsed) else CallThrows" "Some 1" exampleBatch]
  by (simp add: list_all_iff length_scoreSingleBatch exampleBatch_def)

section \<open>Properties of the selection\<close>

lemma sorted_filter_takeWhile:
  assumes "sorted (map f xs)" and down: "\<And>x y. f x \<le> f y \<Longrightarrow> P y \<Longrightarrow> P x"
  shows "filter P xs = takeWhile P xs"
  using assms(1)
proof (induction xs)
  case Nil
  then show ?case by simp
next
  case (Cons x xs)
  show ?case
  proof (cases "P x")
    case True
    with Cons show ?thesis by simp
  next
    case False
    have "\<not> P y" if "y \<in> set xs" for y
      using Cons.prems that False down [of x y] by auto
    then have "filter P xs = []"
      by (simp add: filter_empty_conv)
    with False show ?thesis by simp
  qed
qed

lemma slice_list_from_start:
  "slice_list 0 n xs =
     take (nat (if n < 0 then max (int (length xs) + n) 0 else min n (int (length xs)))) xs"
  by (simp add: slice_list_def Let_def)

lemma slice_list_prefix:
  assumes "prefix ys xs"
  shows "prefix (slice_list 0 n ys) (slice_list 0 n xs)"
proof -
  let ?a = "nat (if n < 0 then max (int (length ys) + n) 0 else min n (int (length ys)))"
  let ?b = "nat (if n < 0 then max (int (length xs) + n) 0 else min n (int (length xs)))"
  from assms have len: "length ys \<le> length xs"
    by (rule prefix_length_le)
  then have ab: "?a \<le> ?b" by auto
  have a: "?a \<le> length ys" by auto
  from assms obtain zs where xs: "xs = ys @ zs"
    by (auto simp: prefix_def)
  have "take ?a ys = take ?a (take ?b xs)"
    using a ab by (simp add: xs min_absorb1)
  then have "prefix (take ?a ys) (take ?b xs)"
    by (metis take_is_prefix)
  then show ?thesis
    by (simp only: slice_list_from_start)
qed

text \<open>
  C6: for a fixed sequence of scored records and a fixed configuration, raising the
  minimum quality score from \<open>t1\<close> to \<open>t2\<close> makes the retained list of a group (after
  the filters, the stable descending sort and the cut) a prefix of the former one, and
  so its records a subset: records are only removed.
\<close>

theorem C6_monotonic_retention:
  assumes "t1 \<le> t2"
  shows "prefix (selectTop (config\<lparr>minQualityScore := t2\<rparr>) scored)
                (selectTop (config\<lparr>minQualityScore := t1\<rparr>) scored) \<and>
         set (selectTop (config\<lparr>minQualityScore := t2\<rparr>) scored) \<subseteq>
           set (selectTop (config\<lparr>minQualityScore := t1\<rparr>) scored)"
proof -
  let ?key = "\<lambda>memory. - qualityScore memory"
  let ?eligible = "\<lambda>memory. category memory \<in> set (categories config)"
  let ?signal = "\<lambda>memory. category memory \<noteq> lit ''noise''"
  let ?atLeast = "\<lambda>t memory. t \<le> qualityScore memory"
  let ?sorted = "\<lambda>t. sort_key ?key (filter ?eligible (filter ?signal (filter (?atLeast t) scored)))"
  have sel: "selectTop (config\<lparr>minQualityScore := t\<rparr>) scored =
               slice_list 0 (maxOutputPerAgent config) (?sorted t)" for t
    by (simp add: selectTop_def)
  have "filter ?eligible (filter ?signal (filter (?atLeast t2) scored)) =
          filter (?atLeast t2) (filter ?eligible (filter ?signal (filter (?atLeast t1) scored)))"
    using assms by (auto intro: filter_cong)
  then have "?sorted t2 = filter (?atLeast t2) (?sorted t1)"
    by (simp only: filter_sort)
  also have "\<dots> = takeWhile (?atLeast t2) (?sorted t1)"
    by (rule sorted_filter_takeWhile [where f = ?key]) auto
  finally have "prefix (?sorted t2) (?sorted t1)"
    by (simp add: takeWhile_is_prefix)
  then have "prefix (selectTop (config\<lparr>minQualityScore := t2\<rparr>) scored)
                    (selectTop (config\<lparr>minQualityScore := t1\<rparr>) scored)"
    unfolding sel by (rule slice_list_prefix)
  then show ?thesis
    by (simp add: set_mono_prefix)
qed

theorem C6_monotonic_retention_witness:
  "map mem_id (selectTop (defaultConfig\<lparr>minQualityScore := 65\<rparr>) exampleScored) =
     [lit ''s2'', lit ''s3''] \<and>
   map mem_id (selectTop (defaultConfig\<lparr>minQualityScore := 50\<rparr>) exampleScored) =
     [lit ''s2'', lit ''s3'', lit ''s1''] \<and>
   prefix (selectTop (defaultConfig\<lparr>minQualityScore := 65\<rparr>) exampleScored)
          (selectTop (defaultConfig\<lparr>minQualityScore := 50\<rparr>) exampleScored)"
proof -
  have "(50::int) \<le> 65" by simp
  from C6_monotonic_retention [OF this, of defaultConfig exampleScored]
  have "prefix (selectTop (defaultConfig\<lparr>minQualityScore := 65\<rparr>) exampleScored)
          (selectTop (defaultConfig\<lparr>minQualityScore := 50\<rparr>) exampleScored)"
    by simp
  moreover have "map mem_id (selectTop (defaultConfig\<lparr>minQualityScore := 65\<rparr>) exampleScored) =
     [lit ''s2'', lit ''s3'']"
    by code_simp
  moreover have "map mem_id (selectTop (defaultConfig\<lparr>minQualityScore := 50\<rparr>) exampleScored) =
     [lit ''s2'', lit ''s3'', lit ''s1'']"
    by code_simp
  ultimately show ?thesis by simp
qed

section \<open>Properties of the pre-filter\<close>

lemma length_trim: "length (trim s) \<le> length s"
proof -
  have "length (dropWhile isWhiteSpace (rev (dropWhile isWhiteSpace s))) \<le>
          length (rev (dropWhile isWhiteSpace s))"
    by (rule length_dropWhile_le)
  also have "\<dots> \<le> length s"
    by (simp add: length_dropWhile_le)
  finally show ?thesis by (simp add: trim_def)
qed

lemma matchesIgnoreCase_length: "matchesIgnoreCase s w \<Longrightarrow> length s = length w"
  unfolding matchesIgnoreCase_def by (rule map_eq_imp_length_eq)

lemma junkWord_short: "list_ex (matchesIgnoreCase s) junkWords \<Longrightarrow> length s < 20"
  by (auto simp: junkWords_def lit_def dest!: matchesIgnoreCase_length)

lemma junkWordRegex_iff: "junkWordRegex s \<longleftrightarrow> list_ex (matchesIgnoreCase s) junkWords"
  by (simp add: junkWordRegex_def junkWords_def)

text \<open>
  C7: the pre-filter is a function of the record alone (and total, as every function
  here), and it rejects exactly the records the specification describes; a text of
  19 characters is rejected, and so is the text "test" in any case of its letters.
\<close>

theorem C7_preFilter_rejects:
  "preFilter lc m = (\<not> preFilterRejects lc m) \<and>
   (length (textOrEmpty m) = 19 \<longrightarrow> \<not> preFilter lc m) \<and>
   (matchesIgnoreCase (textOrEmpty m) (lit ''test'') \<longrightarrow> \<not> preFilter lc m)"
proof -
  have short: "\<not> preFilter lc m" if "length (textOrEmpty m) < 20"
    using that length_trim [of "textOrEmpty m"] by (simp add: preFilter_def Let_def)
  have "preFilter lc m = (\<not> preFilterRejects lc m)"
    by (simp add: preFilter_def preFilterRejects_def Let_def junkSubstrings_def
        junkWordRegex_iff)
  moreover have "\<not> preFilter lc m" if "matchesIgnoreCase (textOrEmpty m) (lit ''test'')"
    using matchesIgnoreCase_length [OF that] by (intro short) (simp add: lit_def)
  ultimately show ?thesis
    using short by simp
qed

theorem C7_preFilter_rejects_witness:
  "\<not> preFilter asciiLower shortExample \<and> \<not> preFilter asciiLower testExample \<and>
   \<not> preFilter asciiLower junkExample \<and> preFilterRejects asciiLower junkExample \<and>
   preFilter asciiLower keptExample \<and> \<not> preFilterRejects asciiLower keptExample"
proof -
  have l: "length (textOrEmpty shortExample) = 19"
    by (simp add: shortExample_def memoryOf_def textOrEmpty_def)
  have t: "matchesIgnoreCase (textOrEmpty testExample) (lit ''test'')"
    by code_simp
  have j: "preFilterRejects asciiLower junkExample"
    by code_simp
  have k: "preFilter asciiLower keptExample"
    by code_simp
  show ?thesis
    using C7_preFilter_rejects [of asciiLower shortExample]
      C7_preFilter_rejects [of asciiLower testExample]
      C7_preFilter_rejects [of asciiLower junkExample]
      C7_preFilter_rejects [of asciiLower keptExample] l t j k
    by blast
qed

section \<open>Properties of the upsert\<close>

lemma slice_list_chunk_nat:
  "i < length xs \<Longrightarrow> slice_list (int i) (int i + 128) xs = take 128 (drop i xs)"
  using slice_list_chunk [of i xs 128] by simp

lemma concat_upsertChunks:
  "concat (upsertChunks points i written) = concat written @ drop i points"
proof (induction points i written rule: upsertChunks.induct)
  case (1 points i written)
  show ?case
  proof (cases "i < length points")
    case True
    have "take 128 (drop i points) @ drop (i + 128) points = drop i points"
      by (metis add.commute append_take_drop_id drop_drop)
    with "1.IH" [OF True] True show ?thesis
      by (subst upsertChunks.simps) (simp add: slice_list_chunk_nat)
  next
    case False
    then show ?thesis by (subst upsertChunks.simps) simp
  qed
qed

text \<open>
  C10: the points written are those of the retained records, in order; a record
  without an embedding vector is written with a vector of 1024 zeros; and for an
  empty retained set no upsert request is made.
\<close>

theorem C10_upsert_zero_vector:
  "upsertGoldenMemories [] = [] \<and>
   concat (upsertGoldenMemories memories) = map toPoint memories \<and>
   (\<forall>i < length memories. vector (memories ! i) = None \<longrightarrow>
      point_vector (concat (upsertGoldenMemories memories) ! i) = replicate 1024 0) \<and>
   length (replicate 1024 (0::rat)) = 1024"
proof -
  have written: "concat (upsertGoldenMemories memories) = map toPoint memories"
    by (simp add: upsertGoldenMemories_def concat_upsertChunks)
  show ?thesis
    unfolding written by (simp add: upsertGoldenMemories_def toPoint_def)
qed

theorem C10_upsert_zero_vector_witness:
  "map point_vector (concat (upsertGoldenMemories exampleScored)) =
     replicate 4 (replicate 1024 0) \<and>
   length (upsertGoldenMemories exampleScored) = 1 \<and>
   upsertGoldenMemories ([] :: scored_memory list) = []"
proof -
  have v: "vector (exampleScored ! i) = None" if "i < 4" for i
  proof -
    from that have "i = 0 \<or> i = 1 \<or> i = 2 \<or> i = 3" by auto
    then show ?thesis
      by (auto simp: exampleScored_def scoredOf_def memoryOf_def agent_memory.defs
          scored_memory.defs)
  qed
  have len: "length exampleScored = 4"
    by (simp add: exampleScored_def)
  have one: "length (upsertGoldenMemories exampleScored) = 1"
    unfolding upsertGoldenMemories_def len
    by (subst upsertChunks.simps, simp add: len, subst upsertChunks.simps, simp add: len)
  have all: "length (concat (upsertGoldenMemories exampleScored)) = 4"
    using C10_upsert_zero_vector [of exampleScored] len by simp
  have zero: "point_vector (concat (upsertGoldenMemories exampleScored) ! i) = replicate 1024 0"
    if "i < 4" for i
    using C10_upsert_zero_vector [of exampleScored, unfolded len] v [OF that] that by blast
  have "map point_vector (concat (upsertGoldenMemories exampleScored)) =
          replicate 4 (replicate 1024 0)"
  proof (rule nth_equalityI)
    show "length (map point_vector (concat (upsertGoldenMemories exampleScored))) =
            length (replicate 4 (replicate 1024 (0::rat)))"
      using all by simp
  next
    fix i
    assume "i < length (map point_vector (concat (upsertGoldenMemories exampleScored)))"
    then have i: "i < 4" using all by simp
    then show "map point_vector (concat (upsertGoldenMemories exampleScored)) ! i =
                 replicate 4 (replicate 1024 0) ! i"
      using zero [OF i] all by (simp only: nth_map nth_replicate)
  qed
  with one show ?thesis
    using C10_upsert_zero_vector [of exampleScored] by simp
qed

section \<open>Properties of a run\<close>

lemma set_slice_list: "set (slice_list a b xs) \<subseteq> set xs"
proof -
  have "set (take n (drop k xs)) \<subseteq> set xs" for n k
    by (meson set_take_subset set_drop_subset subset_trans)
  then show ?thesis
    by (simp add: slice_list_def Let_def)
qed

lemma selectTop_member:
  assumes "r \<in> set (selectTop config scored)"
  shows "r \<in> set scored" and "category r \<noteq> lit ''noise''"
    and "category r \<in> set (categories config)" and "minQualityScore config \<le> qualityScore r"
proof -
  from assms have "r \<in> set (sort_key (\<lambda>memory. - qualityScore memory)
          (filter (\<lambda>memory. category memory \<in> set (categories config))
             (filter (\<lambda>memory. category memory \<noteq> lit ''noise'')
                (filter (\<lambda>memory. qualityScore memory \<ge> minQualityScore config) scored))))"
    unfolding selectTop_def by (rule set_slice_list [THEN subsetD])
  then show "r \<in> set scored" and "category r \<noteq> lit ''noise''"
    and "category r \<in> set (categories config)" and "minQualityScore config \<le> qualityScore r"
    by simp_all
qed

lemma putProp_values: "snd ` set (putProp k v ps) \<subseteq> insert v (snd ` set ps)"
  by (induction ps) auto

lemma setProp_values: "snd ` set (setProp k v ps) \<subseteq> insert v (snd ` set ps)"
  using putProp_values [of k v ps] by (auto simp: setProp_def)

lemma set_objectValues: "set (objectValues obj) = snd ` set obj"
  by (auto simp: objectValues_def)

lemma distillAgents_selected:
  assumes "\<And>pos filtered r.
             r \<in> set (selectTop config (scoreFiltered env config pos filtered)) \<Longrightarrow> Q r"
    and "distillAgents env config pos ags st = Inr st'"
    and "\<forall>rs \<in> snd ` set (selectedByAgent st). \<forall>r \<in> set rs. Q r"
  shows "\<forall>rs \<in> snd ` set (selectedByAgent st'). \<forall>r \<in> set rs. Q r"
  using assms(2,3)
proof (induction ags arbitrary: pos st)
  case Nil
  then show ?case by simp
next
  case (Cons agent rest)
  from Cons.prems(1) obtain memories where read: "getAllMemories env agent = Inr memories"
    by (cases "getAllMemories env agent") auto
  let ?filtered = "filter (preFilter (runtimeLowerCase env)) memories"
  let ?top = "selectTop config (scoreFiltered env config pos ?filtered)"
  let ?st = "\<lparr>totalProcessed = totalProcessed st + length ?filtered,
              totalKept = totalKept st + length ?top,
              byAgent = setProp agent (length ?filtered, length ?top) (byAgent st),
              selectedByAgent = setProp agent ?top (selectedByAgent st)\<rparr>"
  from Cons.prems(1) read have run: "distillAgents env config (Suc pos) rest ?st = Inr st'"
    by (simp add: Let_def)
  have "\<forall>rs \<in> snd ` set (selectedByAgent ?st). \<forall>r \<in> set rs. Q r"
    using setProp_values [of agent ?top "selectedByAgent st"] Cons.prems(2) assms(1)
    by auto
  with run show ?case
    by (rule Cons.IH)
qed

lemma distill_flatMemories:
  assumes "\<And>pos filtered r.
             r \<in> set (selectTop config (scoreFiltered env config pos filtered)) \<Longrightarrow> Q r"
    and "distill env config = Inr result"
    and "r \<in> set (flatMemories result)"
  shows "Q r"
proof -
  let ?init = "\<lparr>totalProcessed = 0, totalKept = 0, byAgent = [], selectedByAgent = []\<rparr>"
  from assms(2) obtain st where
    run: "distillAgents env config 0 (agents config) ?init = Inr st"
    and flat: "flatMemories result = concat (objectValues (selectedByAgent st))"
    by (auto simp: distill_def bindE_def Let_def split: sum.splits if_splits)
  have init: "\<forall>rs \<in> snd ` set (selectedByAgent ?init). \<forall>r \<in> set rs. Q r"
    by simp
  have "\<forall>rs \<in> snd ` set (selectedByAgent st). \<forall>r \<in> set rs. Q r"
    using assms(1) run init by (rule distillAgents_selected)
  with assms(3) show ?thesis
    by (auto simp: flat set_objectValues)
qed

text \<open>
  C4: a record whose final heuristic score is below 30 has the category \<open>noise\<close>; and
  no record of category \<open>noise\<close> is in the list a group retains or in the retained set
  of a run, whatever the configuration (its minimum score, also 0, and its eligible
  categories, also when they name \<open>noise\<close>) and whichever scorer the run uses.
\<close>

theorem C4_noise_floor:
  "(qualityScore (scoreMemory lc m) < 30 \<longrightarrow> category (scoreMemory lc m) = lit ''noise'') \<and>
   (\<forall>r \<in> set (selectTop config scored). category r \<noteq> lit ''noise'') \<and>
   (distill env config = Inr result \<longrightarrow>
      (\<forall>r \<in> set (flatMemories result). category r \<noteq> lit ''noise''))"
proof -
  have "category r \<noteq> lit ''noise''"
    if "distill env config = Inr result" "r \<in> set (flatMemories result)" for r
    using _ that by (rule distill_flatMemories) (rule selectTop_member(2))
  then show ?thesis
    by (auto simp: scoreMemory_noise_floor selectTop_member(2))
qed

theorem C4_noise_floor_witness:
  "qualityScore (scoreMemory asciiLower noiseExample) = 25 \<and>
   category (scoreMemory asciiLower noiseExample) = lit ''noise'' \<and>
   (\<exists>result. distill ruleEnvironment
        (defaultConfig\<lparr>minQualityScore := 0, categories := ALLOWED_CATEGORIES, dryRun := True\<rparr>) =
          Inr result \<and>
      map mem_id (flatMemories result) = [lit ''t1'', lit ''f1''] \<and>
      lit ''noise'' \<notin> category ` set (flatMemories result))"
proof -
  let ?config = "defaultConfig\<lparr>minQualityScore := 0, categories := ALLOWED_CATEGORIES, dryRun := True\<rparr>"
  have q: "qualityScore (scoreMemory asciiLower noiseExample) = 25"
    by code_simp
  have "map_sum id (\<lambda>result. map mem_id (flatMemories result)) (distill ruleEnvironment ?config) =
          Inr [lit ''t1'', lit ''f1'']"
    by code_simp
  then obtain result where res: "distill ruleEnvironment ?config = Inr result"
    and ids: "map mem_id (flatMemories result) = [lit ''t1'', lit ''f1'']"
    by (cases "distill ruleEnvironment ?config") auto
  from C4_noise_floor [of asciiLower noiseExample ?config "[]" ruleEnvironment result] q res
  have n: "category (scoreMemory asciiLower noiseExample) = lit ''noise''"
    and f: "lit ''noise'' \<notin> category ` set (flatMemories result)"
    by auto
  show ?thesis
    by (intro conjI exI [of _ result]) (fact q n res ids f)+
qed

lemma scoreMemory_mem_text: "mem_text (scoreMemory lc m) = mem_text m"
  by (simp add: scoreMemory_def Let_def split_def agent_memory.defs scored_memory.defs)

lemma scoreMemory_textOrEmpty: "textOrEmpty (scoreMemory lc m) = textOrEmpty m"
  by (simp add: textOrEmpty_def scoreMemory_mem_text)

lemma unknown_group_category:
  assumes "source_agent m \<notin> {lit ''trader'', lit ''fullstack'', lit ''scrum'', lit ''assistant''}"
    and "\<not> matchesRuleKeywords (lc (textOrEmpty m))"
  shows "category (scoreMemory lc m) = lit ''noise''"
  using assms by (intro unknown_group_noise) (auto simp: matchesRuleKeywords_def)

lemma rule_run_retained:
  assumes "\<not> (llmScoringEnabled env \<and> \<not> forceRuleOnly config)"
    and "r \<in> set (selectTop config (scoreFiltered env config pos filtered))"
  shows "source_agent r \<in> {lit ''trader'', lit ''fullstack'', lit ''scrum'', lit ''assistant''} \<or>
         matchesRuleKeywords (runtimeLowerCase env (textOrEmpty r))"
proof -
  from assms(2) have "r \<in> set (scoreFiltered env config pos filtered)"
    and signal: "category r \<noteq> lit ''noise''"
    by (rule selectTop_member)+
  with assms(1) obtain m where r: "r = scoreMemory (runtimeLowerCase env) m"
    by (auto simp: scoreFiltered_def)
  show ?thesis
  proof (rule ccontr)
    assume "\<not> ?thesis"
    then have "category (scoreMemory (runtimeLowerCase env) m) = lit ''noise''"
      unfolding r scoreMemory_source_agent scoreMemory_textOrEmpty
      by (intro unknown_group_category) auto
    with signal r show False by simp
  qed
qed

text \<open>
  C9, as stated, fails for a run with LLM scoring: the record of group \<open>intern\<close> below
  has no rule keyword and the heuristic scorer gives it \<open>noise\<close>, but the external
  service scores it 90 as \<open>process_improvement\<close>, and the run retains it.
\<close>

theorem C9_unknown_group_counterexample:
  "source_agent internExample \<notin> {lit ''trader'', lit ''fullstack'', lit ''scrum'', lit ''assistant''} \<and>
   \<not> matchesRuleKeywords (asciiLower (textOrEmpty internExample)) \<and>
   category (scoreMemory asciiLower internExample) = lit ''noise'' \<and>
   retainedSummary
     (distill llmEnvironment (defaultConfig\<lparr>agents := [lit ''intern''], dryRun := True\<rparr>)) =
     Some [(mem_id internExample, source_agent internExample, 90, lit ''process_improvement'')]"
  by code_simp

text \<open>
  C9 (amended): a record whose group is none of \<open>trader\<close>, \<open>fullstack\<close>, \<open>scrum\<close>,
  \<open>assistant\<close> and whose text does not match the rule keyword group gets the category
  \<open>noise\<close> from the heuristic scorer, whatever its score; so in a run that scores with
  the heuristic scorer (LLM scoring not enabled, or rule-only forced) every retained
  record has one of the four groups or matches the rule keyword group, for any
  configuration.
\<close>

theorem C9_unknown_group_noise:
  "(source_agent m \<notin> {lit ''trader'', lit ''fullstack'', lit ''scrum'', lit ''assistant''} \<and>
    \<not> matchesRuleKeywords (lc (textOrEmpty m)) \<longrightarrow>
      category (scoreMemory lc m) = lit ''noise'') \<and>
   (\<not> (llmScoringEnabled env \<and> \<not> forceRuleOnly config) \<and> distill env config = Inr result \<longrightarrow>
      (\<forall>r \<in> set (flatMemories result).
         source_agent r \<in> {lit ''trader'', lit ''fullstack'', lit ''scrum'', lit ''assistant''} \<or>
         matchesRuleKeywords (runtimeLowerCase env (textOrEmpty r))))"
proof -
  have "source_agent r \<in> {lit ''trader'', lit ''fullstack'', lit ''scrum'', lit ''assistant''} \<or>
        matchesRuleKeywords (runtimeLowerCase env (textOrEmpty r))"
    if rule: "\<not> (llmScoringEnabled env \<and> \<not> forceRuleOnly config)"
      and "distill env config = Inr result" "r \<in> set (flatMemories result)" for r
    using _ that(2,3) by (rule distill_flatMemories) (rule rule_run_retained [OF rule])
  then show ?thesis
    using unknown_group_category [of m lc] by blast
qed

theorem C9_unknown_group_noise_witness:
  "category (scoreMemory asciiLower internExample) = lit ''noise'' \<and>
   retainedSummary
     (distill ruleEnvironment (defaultConfig\<lparr>agents := [[]], minQualityScore := 0,
        dryRun := True\<rparr>)) =
     Some [(lit ''t1'', lit ''trader'', 80, lit ''trading_win_pattern''),
           (lit ''f1'', lit ''fullstack'', 60, lit ''bug_fix_pattern'')] \<and>
   (\<exists>result. distill ruleEnvironment (defaultConfig\<lparr>agents := [[]], minQualityScore := 0,
        dryRun := True\<rparr>) = Inr result \<and>
      list_all (\<lambda>r. source_agent r \<in> {lit ''trader'', lit ''fullstack'', lit ''scrum'',
                                       lit ''assistant''} \<or>
                     matchesRuleKeywords (asciiLower (textOrEmpty r))) (flatMemories result))"
proof -
  let ?config = "defaultConfig\<lparr>agents := [[]], minQualityScore := 0, dryRun := True\<rparr>"
  have g: "source_agent internExample \<notin>
             {lit ''trader'', lit ''fullstack'', lit ''scrum'', lit ''assistant''}"
    by code_simp
  have k: "\<not> matchesRuleKeywords (asciiLower (textOrEmpty internExample))"
    by code_simp
  have s: "retainedSummary (distill ruleEnvironment ?config) =
             Some [(lit ''t1'', lit ''trader'', 80, lit ''trading_win_pattern''),
                   (lit ''f1'', lit ''fullstack'', 60, lit ''bug_fix_pattern'')]"
    by code_simp
  then obtain result where res: "distill ruleEnvironment ?config = Inr result"
    by (cases "distill ruleEnvironment ?config") (auto simp: retainedSummary_def)
  have mode: "\<not> (llmScoringEnabled ruleEnvironment \<and> \<not> forceRuleOnly ?config)"
    and lower: "runtimeLowerCase ruleEnvironment = asciiLower"
    by (simp_all add: ruleEnvironment_def)
  note inst = C9_unknown_group_noise [of internExample asciiLower ruleEnvironment ?config result]
  have n: "category (scoreMemory asciiLower internExample) = lit ''noise''"
    using inst g k by blast
  have "\<forall>r \<in> set (flatMemories result).
          source_agent r \<in> {lit ''trader'', lit ''fullstack'', lit ''scrum'', lit ''assistant''} \<or>
          matchesRuleKeywords (asciiLower (textOrEmpty r))"
    using inst mode res unfolding lower by blast
  then have a: "list_all (\<lambda>r. source_agent r \<in> {lit ''trader'', lit ''fullstack'', lit ''scrum'',
                                       lit ''assistant''} \<or>
                     matchesRuleKeywords (asciiLower (textOrEmpty r))) (flatMemories result)"
    by (simp add: list_all_iff)
  show ?thesis
    by (intro conjI exI [of _ result]) (fact n s res a)+
qed

lemma distillAgents_returns:
  assumes "\<And>agent. \<not> isl (getAllMemories env agent)"
  shows "\<not> isl (distillAgents env config pos ags st)"
proof (induction ags arbitrary: pos st)
  case Nil
  then show ?case by simp
next
  case (Cons agent rest)
  from assms [of agent] obtain memories where "getAllMemories env agent = Inr memories"
    by (cases "getAllMemories env agent") auto
  with Cons.IH show ?case
    by (simp add: Let_def)
qed

lemma mapE_returns: "(\<And>x. \<not> isl (f x)) \<Longrightarrow> \<not> isl (mapE f xs)"
proof (induction xs)
  case Nil
  then show ?case by simp
next
  case (Cons x xs)
  from Cons.prems [of x] obtain y where "f x = Inr y"
    by (cases "f x") auto
  moreover from Cons obtain ys where "mapE f xs = Inr ys"
    by (cases "mapE f xs") auto
  ultimately show ?case
    by (simp add: bindE_def)
qed

lemma mapE_sent: "mapE f xs = Inr ys \<Longrightarrow> x \<in> set xs \<Longrightarrow> \<not> isl (f x)"
  by (induction xs arbitrary: ys) (auto simp: bindE_def split: sum.splits)

lemma distill_returns:
  assumes reads: "\<And>agent. \<not> isl (getAllMemories env agent)"
    and writes: "dryRun config \<or>
       (\<not> isl (createGoldenCollection env) \<and> (\<forall>request. \<not> isl (clientUpsert env request)) \<and>
        (createSnapshot config \<longrightarrow> \<not> isl (snapshotGolden env)))"
  shows "\<not> isl (distill env config)"
proof -
  let ?init = "\<lparr>totalProcessed = 0, totalKept = 0, byAgent = [], selectedByAgent = []\<rparr>"
  from distillAgents_returns [OF reads, of config 0 "agents config" ?init]
  obtain st where run: "distillAgents env config 0 (agents config) ?init = Inr st"
    by (cases "distillAgents env config 0 (agents config) ?init") auto
  show ?thesis
  proof (cases "dryRun config")
    case True
    with run show ?thesis
      by (simp add: distill_def bindE_def Let_def)
  next
    case False
    let ?requests = "upsertGoldenMemories (concat (objectValues (selectedByAgent st)))"
    from False writes obtain u where created: "createGoldenCollection env = Inr u"
      by (cases "createGoldenCollection env") auto
    from False writes have "\<not> isl (mapE (clientUpsert env) ?requests)"
      by (intro mapE_returns) simp
    then obtain sent where sent: "mapE (clientUpsert env) ?requests = Inr sent"
      by (cases "mapE (clientUpsert env) ?requests") auto
    show ?thesis
    proof (cases "createSnapshot config")
      case True
      with False writes obtain path where "snapshotGolden env = Inr path"
        by (cases "snapshotGolden env") auto
      with run False created sent True show ?thesis
        by (simp add: distill_def bindE_def Let_def)
    next
      case False
      with run \<open>\<not> dryRun config\<close> created sent show ?thesis
        by (simp add: distill_def bindE_def Let_def)
    qed
  qed
qed

text \<open>A write run that returns a report has created the collection and sent every
  request of \<open>upsertGoldenMemories\<close> with success.\<close>

lemma distill_written:
  assumes "distill env config = Inr result" and "\<not> dryRun config"
  shows "\<not> isl (createGoldenCollection env)"
    and "upserts result = upsertGoldenMemories (flatMemories result)"
    and "\<forall>request \<in> set (upserts result). \<not> isl (clientUpsert env request)"
proof -
  let ?init = "\<lparr>totalProcessed = 0, totalKept = 0, byAgent = [], selectedByAgent = []\<rparr>"
  from assms(1) obtain st where run: "distillAgents env config 0 (agents config) ?init = Inr st"
    by (cases "distillAgents env config 0 (agents config) ?init")
       (auto simp: distill_def bindE_def)
  let ?flat = "concat (objectValues (selectedByAgent st))"
  from assms run obtain u sent where created: "createGoldenCollection env = Inr u"
    and sent: "mapE (clientUpsert env) (upsertGoldenMemories ?flat) = Inr sent"
    and flat: "flatMemories result = ?flat"
    and ups: "upserts result = upsertGoldenMemories ?flat"
    by (auto simp: distill_def bindE_def Let_def split: sum.splits if_splits)
  from created show "\<not> isl (createGoldenCollection env)" by simp
  from flat ups show "upserts result = upsertGoldenMemories (flatMemories result)" by simp
  from sent ups show "\<forall>request \<in> set (upserts result). \<not> isl (clientUpsert env request)"
    by (auto dest: mapE_sent)
qed

text \<open>
  C3: when the call for a chunk throws, or its response is malformed JSON or not an
  array, the chunk's result is the heuristic score of each record, in order, one per
  record, each marked \<open>rule\<close> and with \<open>llm-fallback\<close> appended to its tags. No error
  leaves the scorer: for an integer batch size, a run over chunks that all fail
  returns the heuristic score of every record, and any run returns one scored
  record per input; and \<open>distill\<close> returns its report, whatever the external service
  does, whenever the reads of the store succeed and the run is a dry run or the
  writes to the store succeed.
\<close>

theorem C3_llm_chunk_fallback:
  assumes "replyFails reply"
  shows "scoreSingleBatch toNum toStr lc reply batch =
           map (\<lambda>memory. (scoreMemory lc memory)
                  \<lparr>tags := tags (scoreMemory lc memory) @ [lit ''llm-fallback'']\<rparr>) batch \<and>
         length (scoreSingleBatch toNum toStr lc reply batch) = length batch \<and>
         list_all (\<lambda>r. scoringMethod r = Rule)
           (scoreSingleBatch toNum toStr lc reply batch) \<and>
         ((\<forall>k. replyFails (llm k)) \<longrightarrow>
            scoreBatch toNum toStr lc llm (Some n) memories =
              map (\<lambda>memory. (scoreMemory lc memory)
                     \<lparr>tags := tags (scoreMemory lc memory) @ [lit ''llm-fallback'']\<rparr>) memories) \<and>
         length (scoreBatch toNum toStr lc llm (Some n) memories) = length memories \<and>
         ((\<forall>agent. \<not> isl (getAllMemories env agent)) \<and>
          (dryRun config \<or>
           (\<not> isl (createGoldenCollection env) \<and>
            (\<forall>request. \<not> isl (clientUpsert env request)) \<and>
            (createSnapshot config \<longrightarrow> \<not> isl (snapshotGolden env)))) \<longrightarrow>
            \<not> isl (distill env config))"
proof -
  have eq: "scoreSingleBatch toNum toStr lc reply batch = map (withFallbackTag lc) batch"
    using assms by (rule scoreSingleBatch_fails)
  have fallback: "withFallbackTag lc = (\<lambda>memory. (scoreMemory lc memory)
                  \<lparr>tags := tags (scoreMemory lc memory) @ [lit ''llm-fallback'']\<rparr>)"
    by (rule ext) (simp add: withFallbackTag_def Let_def)
  have chunk: "scoreSingleBatch toNum toStr lc reply batch =
           map (\<lambda>memory. (scoreMemory lc memory)
                  \<lparr>tags := tags (scoreMemory lc memory) @ [lit ''llm-fallback'']\<rparr>) batch"
    unfolding eq fallback ..
  have len: "length (scoreSingleBatch toNum toStr lc reply batch) = length batch"
    by (rule length_scoreSingleBatch)
  have marked: "list_all (\<lambda>r. scoringMethod r = Rule)
                  (scoreSingleBatch toNum toStr lc reply batch)"
    unfolding eq by (simp add: list_all_iff withFallbackTag_fields)
  have run: "scoreBatch toNum toStr lc llm (Some n) memories =
              map (\<lambda>memory. (scoreMemory lc memory)
                     \<lparr>tags := tags (scoreMemory lc memory) @ [lit ''llm-fallback'']\<rparr>) memories"
    if "\<forall>k. replyFails (llm k)"
    using that scoreBatch_all_fail [of llm toNum toStr lc n memories]
    unfolding fallback by blast
  have all: "length (scoreBatch toNum toStr lc llm (Some n) memories) = length memories"
    by (rule length_scoreBatch)
  have returns: "\<not> isl (distill env config)"
    if "\<forall>agent. \<not> isl (getAllMemories env agent)"
      and "dryRun config \<or>
           (\<not> isl (createGoldenCollection env) \<and>
            (\<forall>request. \<not> isl (clientUpsert env request)) \<and>
            (createSnapshot config \<longrightarrow> \<not> isl (snapshotGolden env)))"
    using that by (intro distill_returns) blast+
  from chunk len marked run all returns show ?thesis
    by blast
qed

theorem C3_llm_chunk_fallback_witness:
  "map scoringMethod (scoreSingleBatch exampleToNumber exampleToString asciiLower
      CallThrows exampleBatch) = [Rule, Rule] \<and>
   map tags (scoreSingleBatch exampleToNumber exampleToString asciiLower
      CallThrows exampleBatch) = [[lit ''fix'', lit ''llm-fallback''], [lit ''llm-fallback'']] \<and>
   map qualityScore (scoreSingleBatch exampleToNumber exampleToString asciiLower
      CallThrows exampleBatch) = [60, 50] \<and>
   map tags (scoreBatch exampleToNumber exampleToString asciiLower (\<lambda>k. CallThrows) (Some 1)
      exampleBatch) = [[lit ''fix'', lit ''llm-fallback''], [lit ''llm-fallback'']] \<and>
   \<not> isl (distill failingLlmEnvironment (defaultConfig\<lparr>dryRun := True\<rparr>)) \<and>
   \<not> isl (distill failingLlmEnvironment (defaultConfig\<lparr>createSnapshot := True\<rparr>))"
proof -
  have f: "replyFails CallThrows"
    by (simp add: replyFails_def)
  have s1: "scoreMemory asciiLower (exampleBatch ! 0) =
     agent_memory.extend (exampleBatch ! 0)
       (scored_memory.fields 60 (lit ''bug_fix_pattern'') [lit ''fix''] None Rule None)"
    by code_simp
  have s2: "scoreMemory asciiLower (exampleBatch ! 1) =
     agent_memory.extend (exampleBatch ! 1)
       (scored_memory.fields 50 (lit ''noise'') [] None Rule None)"
    by code_simp
  have reads: "\<forall>agent. \<not> isl (getAllMemories failingLlmEnvironment agent)"
    by (simp add: failingLlmEnvironment_def llmEnvironment_def exampleStore_def)
  have writes: "\<not> isl (createGoldenCollection failingLlmEnvironment) \<and>
      (\<forall>request. \<not> isl (clientUpsert failingLlmEnvironment request)) \<and>
      \<not> isl (snapshotGolden failingLlmEnvironment)"
    by (simp add: failingLlmEnvironment_def llmEnvironment_def)
  have dry: "dryRun (defaultConfig\<lparr>dryRun := True\<rparr>)"
    by simp
  note chunk = C3_llm_chunk_fallback [OF f, of exampleToNumber exampleToString asciiLower
      exampleBatch "\<lambda>k. CallThrows" 1 exampleBatch failingLlmEnvironment]
  have c: "map scoringMethod (scoreSingleBatch exampleToNumber exampleToString asciiLower
      CallThrows exampleBatch) = [Rule, Rule] \<and>
   map tags (scoreSingleBatch exampleToNumber exampleToString asciiLower
      CallThrows exampleBatch) = [[lit ''fix'', lit ''llm-fallback''], [lit ''llm-fallback'']] \<and>
   map qualityScore (scoreSingleBatch exampleToNumber exampleToString asciiLower
      CallThrows exampleBatch) = [60, 50] \<and>
   map tags (scoreBatch exampleToNumber exampleToString asciiLower (\<lambda>k. CallThrows) (Some 1)
      exampleBatch) = [[lit ''fix'', lit ''llm-fallback''], [lit ''llm-fallback'']]"
    using chunk [of "defaultConfig\<lparr>dryRun := True\<rparr>"] f s1 s2
    by (simp add: exampleBatch_def agent_memory.defs scored_memory.defs)
  have d: "\<not> isl (distill failingLlmEnvironment (defaultConfig\<lparr>dryRun := True\<rparr>))"
    using chunk [of "defaultConfig\<lparr>dryRun := True\<rparr>"] reads dry by blast
  have w: "\<not> isl (distill failingLlmEnvironment (defaultConfig\<lparr>createSnapshot := True\<rparr>))"
    using chunk [of "defaultConfig\<lparr>createSnapshot := True\<rparr>"] reads writes by blast
  from c d w show ?thesis by blast
qed

lemma failing_service_run:
  "retainedSummary (distill failingLlmEnvironment (defaultConfig\<lparr>dryRun := True\<rparr>)) =
     Some [(lit ''t1'', lit ''trader'', 80, lit ''trading_win_pattern''),
           (lit ''f1'', lit ''fullstack'', 60, lit ''bug_fix_pattern'')]"
  by code_simp

text \<open>A write run whose store refuses the collection ends without a report.\<close>

lemma failing_store_run:
  "distill (ruleEnvironment\<lparr>createGoldenCollection := Inl StoreError\<rparr>) defaultConfig =
     Inl StoreError"
proof -
  let ?env = "ruleEnvironment\<lparr>createGoldenCollection := Inl StoreError\<rparr>"
  have reads: "\<And>agent. \<not> isl (getAllMemories ?env agent)"
    by (simp add: ruleEnvironment_def exampleStore_def)
  let ?init = "\<lparr>totalProcessed = 0, totalKept = 0, byAgent = [], selectedByAgent = []\<rparr>"
  from distillAgents_returns [OF reads, of defaultConfig 0 "agents defaultConfig" ?init]
  obtain st where "distillAgents ?env defaultConfig 0 (agents defaultConfig) ?init = Inr st"
    by (cases "distillAgents ?env defaultConfig 0 (agents defaultConfig) ?init") auto
  then show ?thesis
    by (simp add: distill_def bindE_def Let_def defaultConfig_def)
qed

end
